theory Spec2Isabelle
  imports Complex_Main "HOL-Library.Sublist"
begin

section \<open>Data frames\<close>

text \<open>
  The program (\<^verbatim>\<open>train-model.py\<close>) works on pandas data frames. A frame is modelled by its
  number of rows (the length of its index) and the ordered list of its named columns.
  A column is either of a numeric dtype (\<open>NumCol\<close>, the columns kept by
  \<^verbatim>\<open>select_dtypes(include=[np.number])\<close>) or of any other dtype (\<open>ObjCol\<close>: text, booleans,
  mixed objects). A missing cell (NaN / None) is \<open>None\<close>.

  Numbers are exact reals: the rounding of 64-bit floats and the infinities are not modelled.
  Rows are addressed by position: the frames come from \<^verbatim>\<open>read_csv\<close>, whose index is unique,
  so that every \<^verbatim>\<open>.loc[X.index]\<close> of the source selects all rows in order. Column names are
  expected to be distinct and all columns to have \<open>nrows\<close> cells (\<open>wf_frame\<close>).
\<close>

datatype cell = Nm real | Bl bool | Tx string

datatype column = NumCol "real option list" | ObjCol "cell option list"

record frame =
  nrows :: nat
  cols :: "(string \<times> column) list"

definition columns :: "frame \<Rightarrow> string list" where
  "columns df = map fst (cols df)"

fun col_len :: "column \<Rightarrow> nat" where
  "col_len (NumCol xs) = length xs"
| "col_len (ObjCol xs) = length xs"

definition wf_frame :: "frame \<Rightarrow> bool" where
  "wf_frame df \<longleftrightarrow>
     distinct (columns df) \<and> list_all (\<lambda>(n, c). col_len c = nrows df) (cols df)"

text \<open>\<^verbatim>\<open>series.isnull()\<close>.\<close>

fun isnull :: "column \<Rightarrow> bool list" where
  "isnull (NumCol xs) = map (\<lambda>x. x = None) xs"
| "isnull (ObjCol xs) = map (\<lambda>x. x = None) xs"

text \<open>\<^verbatim>\<open>series.fillna(v)\<close> for a number \<open>v\<close>; filling with NaN (\<open>None\<close>) changes nothing.\<close>

fun fillna :: "real \<Rightarrow> column \<Rightarrow> column" where
  "fillna v (NumCol xs) = NumCol (map (\<lambda>x. case x of None \<Rightarrow> Some v | Some a \<Rightarrow> Some a) xs)"
| "fillna v (ObjCol xs) = ObjCol (map (\<lambda>x. case x of None \<Rightarrow> Some (Nm v) | Some a \<Rightarrow> Some a) xs)"

fun fillna_opt :: "real option \<Rightarrow> column \<Rightarrow> column" where
  "fillna_opt None c = c"
| "fillna_opt (Some v) c = fillna v c"

text \<open>\<^verbatim>\<open>df[c] = f(df[c])\<close> for a column \<open>c\<close> of the frame.\<close>

definition update_col :: "string \<Rightarrow> (column \<Rightarrow> column) \<Rightarrow> frame \<Rightarrow> frame" where
  "update_col c f df =
     df\<lparr>cols := map (\<lambda>(n, col). if n = c then (n, f col) else (n, col)) (cols df)\<rparr>"

text \<open>\<^verbatim>\<open>df.fillna(v)\<close> on the whole frame.\<close>

definition fillna_frame :: "real \<Rightarrow> frame \<Rightarrow> frame" where
  "fillna_frame v df = df\<lparr>cols := map (\<lambda>(n, col). (n, fillna v col)) (cols df)\<rparr>"

fun is_numeric :: "column \<Rightarrow> bool" where
  "is_numeric (NumCol xs) = True"
| "is_numeric (ObjCol xs) = False"

text \<open>\<^verbatim>\<open>df.select_dtypes(include=[np.number])\<close>.\<close>

definition select_dtypes_number :: "frame \<Rightarrow> frame" where
  "select_dtypes_number df = df\<lparr>cols := filter (\<lambda>(n, col). is_numeric col) (cols df)\<rparr>"

text \<open>\<^verbatim>\<open>df.reindex(columns=cs, fill_value=v)\<close>: the columns \<open>cs\<close> in that order; a column the
  frame does not have is created, every cell \<open>v\<close>.\<close>

definition reindex :: "string list \<Rightarrow> real \<Rightarrow> frame \<Rightarrow> frame" where
  "reindex cs v df =
     df\<lparr>cols := map (\<lambda>c. (c, case map_of (cols df) c of
                                 Some col \<Rightarrow> col
                               | None \<Rightarrow> NumCol (replicate (nrows df) (Some v)))) cs\<rparr>"

text \<open>The cell of a column at a row, and the rows of a numeric matrix.\<close>

fun num_at :: "column \<Rightarrow> nat \<Rightarrow> real option" where
  "num_at (NumCol xs) i = (if i < length xs then xs ! i else None)"
| "num_at (ObjCol xs) i = None"

fun null_at :: "column \<Rightarrow> nat \<Rightarrow> bool" where
  "null_at (NumCol xs) i = (i < length xs \<and> xs ! i = None)"
| "null_at (ObjCol xs) i = (i < length xs \<and> xs ! i = None)"

definition matrix_rows :: "frame \<Rightarrow> real option list list" where
  "matrix_rows X = map (\<lambda>i. map (\<lambda>(n, col). num_at col i) (cols X)) [0..<nrows X]"

text \<open>No cell of the frame is missing (\<^verbatim>\<open>not df.isnull().any().any()\<close>).\<close>

definition no_nulls :: "frame \<Rightarrow> bool" where
  "no_nulls df \<longleftrightarrow> list_all (\<lambda>(n, col). \<not> (True \<in> set (isnull col))) (cols df)"

section \<open>The bundle and prediction\<close>

text \<open>
  \<^verbatim>\<open>imputation_info\<close> is the dictionary built by \<^verbatim>\<open>clean_and_impute\<close>; prediction reads its
  entries with \<^verbatim>\<open>.get(key, default)\<close>, so an absent entry is the empty list here. A stored median
  is a float and may be NaN (\<open>None\<close>). The saved payload holds the regressor, the feature
  columns and, possibly, the imputation info. The regressor is a parameter: a function from
  a matrix row to its prediction (the library predicts row by row).
\<close>

record imputation_plan =
  zero_cols :: "string list"
  median_cols :: "(string \<times> real option) list"
  dropped_cols :: "string list"
  sentinel_cols :: "(string \<times> real) list"

record payload =
  model :: "real option list \<Rightarrow> real"
  feature_columns :: "string list"
  imputation_info :: "imputation_plan option"

text \<open>The loop over \<^verbatim>\<open>zero_cols\<close> (source lines 381-383).\<close>

fun fill_zero_cols :: "string list \<Rightarrow> frame \<Rightarrow> frame" where
  "fill_zero_cols [] df = df"
| "fill_zero_cols (c # cs) df =
     fill_zero_cols cs (if c \<in> set (columns df) then update_col c (fillna 0) df else df)"

text \<open>The loop over the items of \<^verbatim>\<open>median_cols\<close> (source lines 386-388).\<close>

fun fill_median_cols :: "(string \<times> real option) list \<Rightarrow> frame \<Rightarrow> frame" where
  "fill_median_cols [] df = df"
| "fill_median_cols ((c, median_val) # ms) df =
     fill_median_cols ms
       (if c \<in> set (columns df) then update_col c (fillna_opt median_val) df else df)"

definition apply_basic_imputation_for_inference ::
    "frame \<Rightarrow> imputation_plan option \<Rightarrow> frame" where
  "apply_basic_imputation_for_inference df info =
     (case info of
        None \<Rightarrow> fillna_frame 0 df
      | Some p \<Rightarrow> fillna_frame 0 (fill_median_cols (median_cols p) (fill_zero_cols (zero_cols p) df)))"

text \<open>Source lines 404-414 of \<^verbatim>\<open>predict_vcvr_from_features\<close>: the matrix given to the
  regressor.\<close>

definition inference_matrix :: "payload \<Rightarrow> frame \<Rightarrow> frame" where
  "inference_matrix b features =
     (let features_num = select_dtypes_number features;
          features_num = apply_basic_imputation_for_inference features_num (imputation_info b)
      in reindex (feature_columns b) 0 features_num)"

text \<open>The only message of prediction: the number of expected feature columns that the
  numeric input lacks, when there is one (source lines 417-419).\<close>

definition missing_cols_warning :: "payload \<Rightarrow> frame \<Rightarrow> nat option" where
  "missing_cols_warning b features =
     (let features_num = apply_basic_imputation_for_inference
                           (select_dtypes_number features) (imputation_info b);
          missing_cols = filter (\<lambda>c. c \<notin> set (columns features_num)) (feature_columns b)
      in if missing_cols \<noteq> [] then Some (length missing_cols) else None)"

text \<open>\<^verbatim>\<open>predict_vcvr_from_features\<close>: the messages printed and the predictions.\<close>

definition predict_vcvr_from_features :: "payload \<Rightarrow> frame \<Rightarrow> nat option \<times> real list" where
  "predict_vcvr_from_features b features =
     (missing_cols_warning b features,
      map (model b) (matrix_rows (inference_matrix b features)))"

section \<open>Training: \<^verbatim>\<open>clean_and_impute\<close>\<close>

text \<open>
  The exceptions that \<^verbatim>\<open>clean_and_impute\<close> can end with: a missing column read
  (\<open>KeyError\<close>), a failed conversion to float (\<open>ValueError\<close>), an aggregate of
  target values that include a text (\<open>TypeError\<close>), a merge whose suffixes produce duplicate column names
  (\<open>MergeError\<close>), and a local variable read before its assignment (\<open>UnboundLocalError\<close>).
\<close>

datatype error =
    KeyError string
  | ValueError
  | TypeError
  | MergeError
  | UnboundLocalError string

definition TARGET_COL :: string where "TARGET_COL = ''VCVR''"

definition ID_COLS :: "string list" where "ID_COLS = [''URL'']"

definition INTERNAL_FLAG_COL :: string where "INTERNAL_FLAG_COL = ''IsInternal''"

subsection \<open>Frame operations used by training\<close>

text \<open>\<^verbatim>\<open>df[mask]\<close>: the rows where the boolean mask holds, in order.\<close>

definition keep_rows :: "bool list \<Rightarrow> 'a list \<Rightarrow> 'a list" where
  "keep_rows keep xs = map snd (filter fst (zip keep xs))"

fun filter_col :: "bool list \<Rightarrow> column \<Rightarrow> column" where
  "filter_col keep (NumCol xs) = NumCol (keep_rows keep xs)"
| "filter_col keep (ObjCol xs) = ObjCol (keep_rows keep xs)"

definition filter_rows :: "bool list \<Rightarrow> frame \<Rightarrow> frame" where
  "filter_rows keep df =
     \<lparr>nrows = length (filter id keep),
      cols = map (\<lambda>(n, col). (n, filter_col keep col)) (cols df)\<rparr>"

text \<open>\<^verbatim>\<open>df[c] = col\<close>: replaces the column in place, or appends a new one.\<close>

definition assign_col :: "string \<Rightarrow> column \<Rightarrow> frame \<Rightarrow> frame" where
  "assign_col c col df =
     (if c \<in> set (columns df) then update_col c (\<lambda>_. col) df
      else df\<lparr>cols := cols df @ [(c, col)]\<rparr>)"

text \<open>\<^verbatim>\<open>df.drop(columns=cs)\<close>, for names that the frame has.\<close>

definition drop_columns :: "string list \<Rightarrow> frame \<Rightarrow> frame" where
  "drop_columns cs df = df\<lparr>cols := filter (\<lambda>(n, col). n \<notin> set cs) (cols df)\<rparr>"

text \<open>\<^verbatim>\<open>series.isnull().astype(int)\<close>.\<close>

definition isnull_int :: "column \<Rightarrow> column" where
  "isnull_int c = NumCol (map (\<lambda>b. Some (if b then 1 else 0)) (isnull c))"

text \<open>\<^verbatim>\<open>series.isnull().mean()\<close>: the fraction of missing cells; NaN (\<open>None\<close>) for a
  series without rows.\<close>

definition missing_ratio :: "column \<Rightarrow> real option" where
  "missing_ratio c =
     (let m = isnull c
      in if m = [] then None else Some (real (length (filter id m)) / real (length m)))"

text \<open>Comparisons with a float that may be NaN: both are false on NaN.\<close>

fun nan_gt :: "real option \<Rightarrow> real \<Rightarrow> bool" where
  "nan_gt None t = False"
| "nan_gt (Some r) t = (r > t)"

fun nan_eq :: "real option \<Rightarrow> real \<Rightarrow> bool" where
  "nan_eq None t = False"
| "nan_eq (Some r) t = (r = t)"

text \<open>The non-missing values of a numeric series, and its \<^verbatim>\<open>mean()\<close> and \<^verbatim>\<open>median()\<close>, which
  skip missing values and are NaN when nothing is left.\<close>

definition present :: "'a option list \<Rightarrow> 'a list" where
  "present xs = List.map_filter id xs"

definition mean_of :: "real list \<Rightarrow> real option" where
  "mean_of vs = (if vs = [] then None else Some (sum_list vs / real (length vs)))"

definition median_of :: "real list \<Rightarrow> real option" where
  "median_of vs =
     (let s = sort vs; n = length s
      in if n = 0 then None
         else if odd n then Some (s ! (n div 2))
         else Some ((s ! (n div 2 - 1) + s ! (n div 2)) / 2))"

fun series_median :: "column \<Rightarrow> real option" where
  "series_median (NumCol xs) = median_of (present xs)"
| "series_median (ObjCol xs) = None"

text \<open>\<^verbatim>\<open>series.astype(float)\<close>. A number stays, a boolean becomes 0 or 1, a text is parsed by
  Python's \<^verbatim>\<open>float\<close>, here the parameter \<open>pf\<close> (\<open>None\<close> where it raises); a missing cell
  stays missing. One cell that cannot be converted makes the whole conversion raise.\<close>

fun to_float :: "(string \<Rightarrow> real option) \<Rightarrow> cell \<Rightarrow> real option" where
  "to_float pf (Nm r) = Some r"
| "to_float pf (Bl b) = Some (if b then 1 else 0)"
| "to_float pf (Tx s) = pf s"

fun astype_float :: "(string \<Rightarrow> real option) \<Rightarrow> column \<Rightarrow> error + real option list" where
  "astype_float pf (NumCol xs) = Inr xs"
| "astype_float pf (ObjCol xs) =
     (if list_all (\<lambda>x. case x of None \<Rightarrow> True | Some c \<Rightarrow> to_float pf c \<noteq> None) xs
      then Inr (map (\<lambda>x. case x of None \<Rightarrow> None | Some c \<Rightarrow> to_float pf c) xs)
      else Inl ValueError)"

subsection \<open>Category statistics\<close>

text \<open>
  \<^verbatim>\<open>df.groupby("Category")[TARGET_COL].agg(mean, median, count).reset_index()\<close>: one entry per
  distinct non-missing key, with the mean, the median and the count of the target values
  of the rows with that key. A row without key is in no group. The aggregates read a
  number as it is and a boolean as 0 or 1; a text in a group makes them raise, and a text
  in a row without key is never read.
\<close>

fun cells_of :: "column \<Rightarrow> cell option list" where
  "cells_of (NumCol xs) = map (map_option Nm) xs"
| "cells_of (ObjCol xs) = xs"

definition group_values :: "cell option list \<Rightarrow> 'a option list \<Rightarrow> cell \<Rightarrow> 'a list" where
  "group_values keys vals k =
     List.map_filter (\<lambda>(k', v). if k' = Some k then v else None) (zip keys vals)"

fun agg_number :: "cell \<Rightarrow> real option" where
  "agg_number (Nm r) = Some r"
| "agg_number (Bl b) = Some (if b then 1 else 0)"
| "agg_number (Tx s) = None"

type_synonym cat_stats = "(cell \<times> real option \<times> real option \<times> real option) list"

fun groupby_agg :: "column \<Rightarrow> column \<Rightarrow> error + cat_stats" where
  "groupby_agg cat (NumCol ts) =
     (let keys = cells_of cat
      in Inr (map (\<lambda>k. let g = group_values keys ts k
                         in (k, mean_of g, median_of g, Some (real (length g))))
                (remdups (present keys))))"
| "groupby_agg cat (ObjCol ts) =
     (let keys = cells_of cat;
          ks = remdups (present keys)
      in if list_all (\<lambda>k. list_all (\<lambda>c. agg_number c \<noteq> None) (group_values keys ts k)) ks
         then Inr (map (\<lambda>k. let g = List.map_filter agg_number (group_values keys ts k)
                            in (k, mean_of g, median_of g, Some (real (length g))))
                     ks)
         else Inl TypeError)"

text \<open>
  \<^verbatim>\<open>df.merge(cat_stats, on="Category", how="left")\<close>: every row keeps its place and gets the
  three statistics of its key, missing where the key is missing or has no entry. A column of
  the frame that has the name of a statistic is renamed with the suffix \<^verbatim>\<open>_x\<close> and the
  statistic with \<^verbatim>\<open>_y\<close>; the merge raises when that produces a duplicate name.
\<close>

definition stat_names :: "string list" where
  "stat_names = [''cat_mean_vcvr'', ''cat_median_vcvr'', ''cat_count'']"

definition stat_columns :: "cat_stats \<Rightarrow> column \<Rightarrow> (string \<times> column) list" where
  "stat_columns st cat =
     (let keys = cells_of cat;
          look = (\<lambda>sel k. case k of None \<Rightarrow> None
                              | Some k \<Rightarrow> (case map_of st k of None \<Rightarrow> None | Some e \<Rightarrow> sel e))
      in [(''cat_mean_vcvr'', NumCol (map (look (\<lambda>(m, md, c). m)) keys)),
          (''cat_median_vcvr'', NumCol (map (look (\<lambda>(m, md, c). md)) keys)),
          (''cat_count'', NumCol (map (look (\<lambda>(m, md, c). c)) keys))])"

definition merge_left :: "frame \<Rightarrow> cat_stats \<Rightarrow> error + frame" where
  "merge_left df st =
     (case map_of (cols df) ''Category'' of
        None \<Rightarrow> Inl (KeyError ''Category'')
      | Some cat \<Rightarrow>
          (let left = map (\<lambda>(n, col). (if n \<in> set stat_names then n @ ''_x'' else n, col)) (cols df);
               right = map (\<lambda>(n, col). (if n \<in> set (columns df) then n @ ''_y'' else n, col))
                         (stat_columns st cat)
           in if distinct (map fst (left @ right))
              then Inr (df\<lparr>cols := left @ right\<rparr>)
              else Inl MergeError))"

subsection \<open>The steps of \<^verbatim>\<open>clean_and_impute\<close>\<close>

text \<open>Step 1 (source lines 64-67): the rows whose target is not missing.\<close>

definition drop_missing_target :: "frame \<Rightarrow> error + frame" where
  "drop_missing_target df =
     (case map_of (cols df) TARGET_COL of
        None \<Rightarrow> Inl (KeyError TARGET_COL)
      | Some t \<Rightarrow> Inr (filter_rows (map Not (isnull t)) df))"

text \<open>
  Step 2 (source lines 84-119). With a \<^verbatim>\<open>RANK\<close> column: the flag \<^verbatim>\<open>RANK_missing\<close>, the
  sentinel \<open>-1\<close> for the missing ranks, and then, inside the same branch, the category
  statistics. \<^verbatim>\<open>cat_stats\<close> is assigned only when there is a \<^verbatim>\<open>Category\<close> column, and the merge
  that follows reads it in both cases. Without a \<^verbatim>\<open>RANK\<close> column nothing of this runs.
\<close>

definition special_rank :: "frame \<Rightarrow> error + frame \<times> (string \<times> real) list" where
  "special_rank df =
     (case map_of (cols df) ''RANK'' of
        None \<Rightarrow> Inr (df, [])
      | Some r \<Rightarrow>
          (let df = assign_col ''RANK_missing'' (isnull_int r) df;
               sentinel_value = - 1;
               df = update_col ''RANK'' (fillna sentinel_value) df;
               sentinels = [(''RANK'', sentinel_value)]
           in case map_of (cols df) ''Category'' of
                None \<Rightarrow> Inl (UnboundLocalError ''cat_stats'')
              | Some cat \<Rightarrow>
                  (case map_of (cols df) TARGET_COL of
                     None \<Rightarrow> Inl (KeyError TARGET_COL)
                   | Some t \<Rightarrow>
                       (case groupby_agg cat t of
                          Inl e \<Rightarrow> Inl e
                        | Inr cat_stats \<Rightarrow>
                            (case merge_left df cat_stats of
                               Inl e \<Rightarrow> Inl e
                             | Inr df \<Rightarrow> Inr (df, sentinels))))))"

text \<open>Step 3 (source lines 124-139): the columns with more than 40 percent missing.\<close>

definition cols_to_drop :: "frame \<Rightarrow> string list" where
  "cols_to_drop df =
     map fst (filter (\<lambda>(c, col). c \<notin> set [TARGET_COL, ''RANK'', ''RANK_missing'']
                                 \<and> nan_gt (missing_ratio col) 0.40) (cols df))"

text \<open>The frame that the pruning step sees: the result of steps 1 and 2.\<close>

definition before_pruning :: "frame \<Rightarrow> error + frame" where
  "before_pruning df =
     (case drop_missing_target df of
        Inl e \<Rightarrow> Inl e
      | Inr df1 \<Rightarrow> (case special_rank df1 of Inl e \<Rightarrow> Inl e | Inr (df2, s) \<Rightarrow> Inr df2))"

text \<open>Step 6 (source lines 166-191): the loop over the numeric columns. It carries the
  feature frame and the two entries \<^verbatim>\<open>zero_cols\<close> and \<^verbatim>\<open>median_cols\<close> of the imputation info.
  A column name is the list of the UTF-8 bytes of the Python string.\<close>

definition upper_char :: "char \<Rightarrow> char" where
  "upper_char c =
     (case map_of (zip ''abcdefghijklmnopqrstuvwxyz'' ''ABCDEFGHIJKLMNOPQRSTUVWXYZ'') c of
        Some u \<Rightarrow> u
      | None \<Rightarrow> c)"

text \<open>The characters outside ASCII whose upper case has an ASCII letter, with their upper
  case, both as UTF-8 bytes: U+00DF, U+0131, U+0149, U+017F, U+01F0, U+1E96 to U+1E9A and
  U+FB00 to U+FB06.\<close>

definition special_upper :: "(string \<times> string) list" where
  "special_upper =
     [([CHR 0xC3, CHR 0x9F], ''SS''),
      ([CHR 0xC4, CHR 0xB1], ''I''),
      ([CHR 0xC5, CHR 0x89], [CHR 0xCA, CHR 0xBC, CHR ''N'']),
      ([CHR 0xC5, CHR 0xBF], ''S''),
      ([CHR 0xC7, CHR 0xB0], [CHR ''J'', CHR 0xCC, CHR 0x8C]),
      ([CHR 0xE1, CHR 0xBA, CHR 0x96], [CHR ''H'', CHR 0xCC, CHR 0xB1]),
      ([CHR 0xE1, CHR 0xBA, CHR 0x97], [CHR ''T'', CHR 0xCC, CHR 0x88]),
      ([CHR 0xE1, CHR 0xBA, CHR 0x98], [CHR ''W'', CHR 0xCC, CHR 0x8A]),
      ([CHR 0xE1, CHR 0xBA, CHR 0x99], [CHR ''Y'', CHR 0xCC, CHR 0x8A]),
      ([CHR 0xE1, CHR 0xBA, CHR 0x9A], [CHR ''A'', CHR 0xCA, CHR 0xBE]),
      ([CHR 0xEF, CHR 0xAC, CHR 0x80], ''FF''),
      ([CHR 0xEF, CHR 0xAC, CHR 0x81], ''FI''),
      ([CHR 0xEF, CHR 0xAC, CHR 0x82], ''FL''),
      ([CHR 0xEF, CHR 0xAC, CHR 0x83], ''FFI''),
      ([CHR 0xEF, CHR 0xAC, CHR 0x84], ''FFL''),
      ([CHR 0xEF, CHR 0xAC, CHR 0x85], ''ST''),
      ([CHR 0xEF, CHR 0xAC, CHR 0x86], ''ST'')]"

text \<open>\<^verbatim>\<open>col.upper()\<close> on the UTF-8 bytes of the name. \<open>upper_from k s\<close> skips \<open>k\<close> bytes, the
  rest of a character already replaced. A character outside ASCII that is not in the table
  is left as it is: its upper case has no ASCII character, so it does not change where an
  ASCII word occurs.\<close>

fun upper_from :: "nat \<Rightarrow> string \<Rightarrow> string" where
  "upper_from k [] = []"
| "upper_from k (c # s) =
     (if 0 < k then upper_from (k - 1) s
      else case find (\<lambda>(src, up). prefix src (c # s)) special_upper of
             Some (src, up) \<Rightarrow> up @ upper_from (length src - 1) s
           | None \<Rightarrow> upper_char c # upper_from 0 s)"

definition upper :: "string \<Rightarrow> string" where
  "upper s = upper_from 0 s"

definition zero_like :: "string \<Rightarrow> bool" where
  "zero_like col =
     (let col_upper = upper col
      in sublist ''COUNT'' col_upper \<or> sublist ''RATIO'' col_upper \<or> sublist ''PERCENT'' col_upper)"

definition special_impute_cols :: "string list" where
  "special_impute_cols = [''RANK'', ''RANK_missing'']"

text \<open>\<^verbatim>\<open>d[k] = v\<close> on a dictionary kept as an association list.\<close>

fun dict_set :: "('k \<times> 'v) list \<Rightarrow> 'k \<Rightarrow> 'v \<Rightarrow> ('k \<times> 'v) list" where
  "dict_set [] k v = [(k, v)]"
| "dict_set ((k', v') # d) k v = (if k' = k then (k, v) # d else (k', v') # dict_set d k v)"

fun impute_loop ::
    "string list \<Rightarrow> frame \<times> string list \<times> (string \<times> real option) list
       \<Rightarrow> frame \<times> string list \<times> (string \<times> real option) list" where
  "impute_loop [] st = st"
| "impute_loop (col # rest) (feature_df, zs, ms) =
     (if col \<in> set special_impute_cols then impute_loop rest (feature_df, zs, ms)
      else case map_of (cols feature_df) col of
             None \<Rightarrow> impute_loop rest (feature_df, zs, ms)
           | Some c \<Rightarrow>
               if nan_eq (missing_ratio c) 0 then impute_loop rest (feature_df, zs, ms)
               else if zero_like col
               then impute_loop rest (update_col col (fillna 0) feature_df, zs @ [col], ms)
               else (let median_val = series_median c
                     in impute_loop rest
                          (update_col col (fillna_opt median_val) feature_df, zs,
                           dict_set ms col median_val)))"

text \<open>The final check (source lines 194-196): the number of rows that still have a missing
  value is printed in a warning; nothing is raised.\<close>

definition rows_with_null :: "frame \<Rightarrow> nat" where
  "rows_with_null df =
     length (filter (\<lambda>i. list_ex (\<lambda>(n, col). null_at col i) (cols df)) [0..<nrows df])"

definition nan_check :: "frame \<Rightarrow> nat option" where
  "nan_check feature_df =
     (if \<not> no_nulls feature_df then Some (rows_with_null feature_df) else None)"

text \<open>Step 8 (source lines 207-239): the sample weights, read from the pruned frame
  \<^verbatim>\<open>df\<close>, not from the imputed features. A missing weight is NaN.\<close>

definition base_weight ::
    "(string \<Rightarrow> real option) \<Rightarrow> frame \<Rightarrow> nat \<Rightarrow> error + real option list" where
  "base_weight pf df len_X =
     (case map_of (cols df) ''Clicks'' of
        Some c \<Rightarrow>
          (case astype_float pf c of
             Inl e \<Rightarrow> Inl e
           | Inr clicks \<Rightarrow>
               (let clicks = map (map_option (\<lambda>v. max v 1)) clicks
                in Inr (map (map_option (\<lambda>v. sqrt (min v 1000))) clicks)))
      | None \<Rightarrow> Inr (replicate len_X (Some 1)))"

text \<open>\<^verbatim>\<open>series != 0\<close>; a missing cell and a text differ from 0.\<close>

fun ne_zero :: "column \<Rightarrow> bool list" where
  "ne_zero (NumCol xs) = map (\<lambda>x. x \<noteq> Some 0) xs"
| "ne_zero (ObjCol xs) =
     map (\<lambda>x. case x of Some (Nm r) \<Rightarrow> r \<noteq> 0 | Some (Bl b) \<Rightarrow> b | _ \<Rightarrow> True) xs"

definition build_sample_weight ::
    "(string \<Rightarrow> real option) \<Rightarrow> frame \<Rightarrow> nat \<Rightarrow> error + real option list" where
  "build_sample_weight pf df len_X =
     (case base_weight pf df len_X of
        Inl e \<Rightarrow> Inl e
      | Inr base \<Rightarrow>
          (case map_of (cols df) INTERNAL_FLAG_COL of
             Some f \<Rightarrow>
               (let internal_flag = ne_zero (fillna 0 f);
                    internal_multiplier = map (\<lambda>b. if b then 2.0 else (1.0 :: real)) internal_flag
                in Inr (map (\<lambda>(w, m). map_option (\<lambda>v. v * m) w) (zip base internal_multiplier)))
           | None \<Rightarrow> Inr base))"

text \<open>What \<^verbatim>\<open>clean_and_impute\<close> returns, with the warning of its final check.\<close>

record fit_result =
  fit_X :: frame
  fit_y :: "real option list"
  fit_info :: imputation_plan
  fit_sample_weight :: "real option list"
  fit_nan_warning :: "nat option"

definition clean_and_impute :: "(string \<Rightarrow> real option) \<Rightarrow> frame \<Rightarrow> error + fit_result" where
  "clean_and_impute pf df =
     (case drop_missing_target df of
        Inl e \<Rightarrow> Inl e
      | Inr df \<Rightarrow>
     (case special_rank df of
        Inl e \<Rightarrow> Inl e
      | Inr (df, sentinels) \<Rightarrow>
     (let dropped = cols_to_drop df;
          df = drop_columns dropped df
      in case map_of (cols df) TARGET_COL of
           None \<Rightarrow> Inl (KeyError TARGET_COL)
         | Some t \<Rightarrow>
     (case astype_float pf t of
        Inl e \<Rightarrow> Inl e
      | Inr target \<Rightarrow>
     (let id_cols_present = filter (\<lambda>c. c \<in> set (columns df)) ID_COLS;
          feature_df = drop_columns (id_cols_present @ [TARGET_COL]) df;
          num_cols = columns (select_dtypes_number feature_df);
          feature_df = select_dtypes_number feature_df;
          (feature_df, zs, ms) = impute_loop num_cols (feature_df, [], [])
      in case build_sample_weight pf df (nrows feature_df) of
           Inl e \<Rightarrow> Inl e
         | Inr w \<Rightarrow>
             Inr \<lparr>fit_X = feature_df, fit_y = target,
                  fit_info = \<lparr>zero_cols = zs, median_cols = ms, dropped_cols = dropped,
                              sentinel_cols = sentinels\<rparr>,
                  fit_sample_weight = w,
                  fit_nan_warning = nan_check feature_df\<rparr>)))))"

section \<open>Reference definitions and example inputs\<close>

text \<open>
  The value that the replay of a plan puts into a missing cell of column \<open>c\<close>, written from
  the description of the replay: 0 for a zero-fill column, the stored median for a
  median-fill column, and 0 as the last resort (also when the stored median is NaN). The
  zero-fill loop runs first, so it wins for a column listed in both entries.
\<close>

definition plan_fill_value :: "imputation_plan \<Rightarrow> string \<Rightarrow> real" where
  "plan_fill_value p c =
     (if c \<in> set (zero_cols p) then 0
      else case map_of (median_cols p) c of Some (Some m) \<Rightarrow> m | _ \<Rightarrow> 0)"

definition c4_payload :: payload where
  "c4_payload = \<lparr>model = (\<lambda>row. 0), feature_columns = [''a''], imputation_info = None\<rparr>"

definition c4_frame :: frame where
  "c4_frame = \<lparr>nrows = 2, cols = [(''a'', NumCol [Some 1, None])]\<rparr>"

definition c6_payload :: payload where
  "c6_payload =
     \<lparr>model = (\<lambda>row. sum_list (map (\<lambda>x. case x of None \<Rightarrow> 0 | Some v \<Rightarrow> v) row)),
      feature_columns = [''b'', ''a'', ''t''],
      imputation_info = Some \<lparr>zero_cols = [], median_cols = [(''a'', Some 4)],
                               dropped_cols = [], sentinel_cols = []\<rparr>\<rparr>"

definition c6_frame :: frame where
  "c6_frame = \<lparr>nrows = 2, cols = [(''a'', NumCol [Some 1, None]),
                                  (''t'', ObjCol [Some (Tx ''u''), None]),
                                  (''extra'', NumCol [Some 9, Some 9])]\<rparr>"

definition c7_plan :: imputation_plan where
  "c7_plan = \<lparr>zero_cols = [''clicks_count'', ''views_count''],
              median_cols = [(''x'', Some 5.0), (''z'', Some 2)],
              dropped_cols = [], sentinel_cols = []\<rparr>"

definition c7_frame :: frame where
  "c7_frame = \<lparr>nrows = 2, cols = [(''x'', NumCol [Some 7, None]),
                                  (''clicks_count'', NumCol [None, Some 3]),
                                  (''other'', NumCol [None, Some 1])]\<rparr>"

definition c10_plan :: imputation_plan where
  "c10_plan = \<lparr>zero_cols = [], median_cols = [(''speed'', Some 3)], dropped_cols = [],
               sentinel_cols = [(''RANK'', - 1)]\<rparr>"

definition c10_payload :: payload where
  "c10_payload = \<lparr>model = (\<lambda>row. 0), feature_columns = [''RANK'', ''speed'', ''RANK_missing''],
                   imputation_info = Some c10_plan\<rparr>"

definition c10_frame :: frame where
  "c10_frame = \<lparr>nrows = 2, cols = [(''speed'', NumCol [None, Some 1]),
                                   (''RANK'', NumCol [None, Some 7])]\<rparr>"

text \<open>A parser of floats that accepts no text, for the examples.\<close>

definition never_float :: "string \<Rightarrow> real option" where
  "never_float s = None"


definition c2_frame :: frame where
  "c2_frame = \<lparr>nrows = 2, cols = [(''VCVR'', NumCol [Some 1, Some 3]),
                                  (''RANK'', NumCol [Some 5, None]),
                                  (''speed'', NumCol [Some 2, Some 4])]\<rparr>"

definition c3_frame :: frame where
  "c3_frame = \<lparr>nrows = 2, cols = [(''VCVR'', NumCol [Some 1, Some 3]),
                                  (''Category'', ObjCol [Some (Tx ''a''), Some (Tx ''a'')]),
                                  (''speed'', NumCol [Some 2, Some 4])]\<rparr>"

definition c5_frame :: frame where
  "c5_frame = \<lparr>nrows = 3, cols = [(''VCVR'', NumCol [Some 1, Some 2, Some 3]),
                                  (''Clicks'', NumCol [None, Some 4, Some 2000]),
                                  (''IsInternal'', NumCol [Some 1, Some 0, Some 1])]\<rparr>"

definition c9_bare_frame :: frame where
  "c9_bare_frame = \<lparr>nrows = 3, cols = [(''VCVR'', NumCol [Some 2, Some 4, Some 6]),
                                       (''RANK'', NumCol [None, Some 3, None])]\<rparr>"

definition c9_frame :: frame where
  "c9_frame = \<lparr>nrows = 4, cols = [(''VCVR'', NumCol [Some 1, None, Some 3, Some 5]),
                                  (''RANK'', NumCol [None, Some 2, Some 7, None]),
                                  (''Category'', ObjCol [Some (Tx ''a''), Some (Tx ''a''),
                                                          Some (Tx ''b''), Some (Tx ''a'')]),
                                  (''speed'', NumCol [Some 2, Some 4, None, Some 8])]\<rparr>"

definition c9_filtered :: frame where
  "c9_filtered = \<lparr>nrows = 3, cols = [(''VCVR'', NumCol [Some 1, Some 3, Some 5]),
                                  (''RANK'', NumCol [None, Some 7, None]),
                                  (''Category'', ObjCol [Some (Tx ''a''), Some (Tx ''b''), Some (Tx ''a'')]),
                                  (''speed'', NumCol [Some 2, None, Some 8])]\<rparr>"

definition c9_enriched :: frame where
  "c9_enriched = \<lparr>nrows = 3, cols = [(''VCVR'', NumCol [Some 1, Some 3, Some 5]),
                                  (''RANK'', NumCol [Some (- 1), Some 7, Some (- 1)]),
                                  (''Category'', ObjCol [Some (Tx ''a''), Some (Tx ''b''), Some (Tx ''a'')]),
                                  (''speed'', NumCol [Some 2, None, Some 8]),
                                  (''RANK_missing'', NumCol [Some 1, Some 0, Some 1]),
                                  (''cat_mean_vcvr'', NumCol [Some 3, Some 3, Some 3]),
                                  (''cat_median_vcvr'', NumCol [Some 3, Some 3, Some 3]),
                                  (''cat_count'', NumCol [Some 2, Some 1, Some 2])]\<rparr>"

definition c9_result :: fit_result where
  "c9_result =
     \<lparr>fit_X = \<lparr>nrows = 3, cols = [(''RANK'', NumCol [Some (- 1), Some 7, Some (- 1)]),
                                  (''speed'', NumCol [Some 2, Some 5, Some 8]),
                                  (''RANK_missing'', NumCol [Some 1, Some 0, Some 1]),
                                  (''cat_mean_vcvr'', NumCol [Some 3, Some 3, Some 3]),
                                  (''cat_median_vcvr'', NumCol [Some 3, Some 3, Some 3]),
                                  (''cat_count'', NumCol [Some 2, Some 1, Some 2])]\<rparr>,
      fit_y = [Some 1, Some 3, Some 5],
      fit_info = \<lparr>zero_cols = [], median_cols = [(''speed'', Some 5)], dropped_cols = [],
                  sentinel_cols = [(''RANK'', - 1)]\<rparr>,
      fit_sample_weight = [Some 1, Some 1, Some 1],
      fit_nan_warning = None\<rparr>"

definition c8_stray_frame :: frame where
  "c8_stray_frame = \<lparr>nrows = 3, cols = [(''VCVR'', NumCol [Some 1, Some 2, Some 3]),
                                        (''RANK_missing'', NumCol [None, None, Some 0])]\<rparr>"

definition c8_frame :: frame where
  "c8_frame = \<lparr>nrows = 5, cols = [(''VCVR'', NumCol [Some 1, Some 2, Some 3, Some 4, Some 5]),
                                  (''edge'', NumCol [None, None, Some 1, Some 2, Some 3]),
                                  (''sparse'', NumCol [None, None, None, Some 1, Some 2]),
                                  (''note'', ObjCol [None, None, None, Some (Tx ''x''), Some (Tx ''y'')])]\<rparr>"

definition c8_result :: fit_result where
  "c8_result =
     \<lparr>fit_X = \<lparr>nrows = 5, cols = [(''edge'', NumCol [Some 2, Some 2, Some 1, Some 2, Some 3])]\<rparr>,
      fit_y = [Some 1, Some 2, Some 3, Some 4, Some 5],
      fit_info = \<lparr>zero_cols = [], median_cols = [(''edge'', Some 2)],
                  dropped_cols = [''sparse'', ''note''], sentinel_cols = []\<rparr>,
      fit_sample_weight = [Some 1, Some 1, Some 1, Some 1, Some 1],
      fit_nan_warning = None\<rparr>"

section \<open>Prediction: the replay of the plan\<close>

lemma fillna_fillna: "fillna a (fillna b col) = fillna b col"
  by (cases col) (auto split: option.splits)

lemma fillna_no_null: "True \<notin> set (isnull (fillna v col))"
  by (cases col) (auto split: option.splits)

lemma update_col_columns: "columns (update_col c f df) = columns df"
  by (auto simp: update_col_def columns_def)

lemma update_list_absent:
  "c \<notin> fst ` set xs \<Longrightarrow> map (\<lambda>(n, col). if n = c then (n, f col) else (n, col)) xs = xs"
  by (induction xs) auto

lemma update_col_absent: "c \<notin> set (columns df) \<Longrightarrow> update_col c f df = df"
  by (simp add: update_col_def columns_def update_list_absent)

lemma fill_zero_cols_cols:
  "fill_zero_cols zs df =
     df\<lparr>cols := map (\<lambda>(n, col). (n, if n \<in> set zs then fillna 0 col else col)) (cols df)\<rparr>"
proof (induction zs arbitrary: df)
  case Nil
  then show ?case by simp
next
  case (Cons c cs)
  have eq: "(if c \<in> set (columns df) then update_col c (fillna 0) df else df)
              = update_col c (fillna 0) df"
    by (simp add: update_col_absent)
  have m: "map ((\<lambda>(n, col). (n, if n \<in> set cs then fillna 0 col else col)) \<circ>
               (\<lambda>(n, col). if n = c then (n, fillna 0 col) else (n, col))) xs
         = map (\<lambda>(n, col). (n, if n \<in> set (c # cs) then fillna 0 col else col)) xs" for xs
    by (rule map_cong) (auto simp: fillna_fillna)
  show ?case
    unfolding fill_zero_cols.simps eq Cons.IH
    by (simp add: update_col_def m)
qed

lemma fill_median_cols_cols:
  "distinct (map fst ms) \<Longrightarrow>
   fill_median_cols ms df =
     df\<lparr>cols := map (\<lambda>(n, col). (n, case map_of ms n of Some m \<Rightarrow> fillna_opt m col
                                                      | None \<Rightarrow> col)) (cols df)\<rparr>"
proof (induction ms arbitrary: df)
  case Nil
  then show ?case by simp
next
  case (Cons a ms)
  obtain c m where a: "a = (c, m)" by (cases a)
  have eq: "(if c \<in> set (columns df) then update_col c (fillna_opt m) df else df)
              = update_col c (fillna_opt m) df"
    by (simp add: update_col_absent)
  have d: "distinct (map fst ms)" and nin: "c \<notin> fst ` set ms" using Cons.prems a by auto
  have mo: "map_of ms c = None" using nin by (simp add: map_of_eq_None_iff)
  have mm: "map ((\<lambda>(n, col). (n, case map_of ms n of Some m \<Rightarrow> fillna_opt m col | None \<Rightarrow> col)) \<circ>
               (\<lambda>(n, col). if n = c then (n, fillna_opt m col) else (n, col))) xs
         = map (\<lambda>(n, col). (n, case map_of ((c, m) # ms) n of Some m \<Rightarrow> fillna_opt m col
                                                             | None \<Rightarrow> col)) xs" for xs
    by (rule map_cong) (auto simp: mo)
  show ?case
    unfolding a fill_median_cols.simps eq Cons.IH[OF d]
    by (simp add: update_col_def mm)
qed

lemma replay_eq:
  assumes "distinct (map fst (median_cols p))"
  shows "apply_basic_imputation_for_inference df (Some p) =
     df\<lparr>cols := map (\<lambda>(n, col). (n, fillna (plan_fill_value p n) col)) (cols df)\<rparr>"
proof -
  have m: "map ((\<lambda>(n, col). (n, fillna 0 col)) \<circ>
        ((\<lambda>(n, col). (n, case map_of (median_cols p) n of Some m \<Rightarrow> fillna_opt m col
                                                         | None \<Rightarrow> col)) \<circ>
         (\<lambda>(n, col). (n, if n \<in> set (zero_cols p) then fillna 0 col else col)))) xs
     = map (\<lambda>(n, col). (n, fillna (plan_fill_value p n) col)) xs" for xs
    by (rule map_cong) (auto simp: plan_fill_value_def fillna_fillna split: option.splits)
  show ?thesis
    unfolding apply_basic_imputation_for_inference_def
    by (simp add: fill_zero_cols_cols fill_median_cols_cols[OF assms] fillna_frame_def m)
qed

lemma map_of_map_col:
  "map_of (map (\<lambda>(n, col). (n, h n col)) xs) c = map_option (h c) (map_of xs c)"
  by (induction xs) auto

lemma map_of_filter_keep:
  "map_of xs k = Some v \<Longrightarrow> P (k, v) \<Longrightarrow> map_of (filter P xs) k = Some v"
  by (induction xs) (auto split: if_splits)

lemma no_nulls_fillna_frame: "no_nulls (fillna_frame v df)"
  by (simp add: no_nulls_def fillna_frame_def list_all_iff fillna_no_null split_beta)

lemma imputation_no_nulls: "no_nulls (apply_basic_imputation_for_inference df info)"
  by (simp add: apply_basic_imputation_for_inference_def no_nulls_fillna_frame
      split: option.splits)

lemma columns_fillna_frame: "columns (fillna_frame v df) = columns df"
  by (simp add: columns_def fillna_frame_def split_beta)

lemma reindex_columns: "columns (reindex cs v df) = cs"
  by (simp add: reindex_def columns_def comp_def)

lemma reindex_nrows: "nrows (reindex cs v df) = nrows df"
  by (simp add: reindex_def)

lemma imputation_nrows: "nrows (apply_basic_imputation_for_inference df info) = nrows df"
proof -
  have z: "nrows (fill_zero_cols zs d) = nrows d" for zs d
    by (induction zs arbitrary: d) (auto simp: update_col_def)
  have m: "nrows (fill_median_cols ms d) = nrows d" for ms d
    by (induction ms arbitrary: d) (auto simp: update_col_def)
  show ?thesis
    by (simp add: apply_basic_imputation_for_inference_def fillna_frame_def z m
        split: option.splits)
qed

lemma imputation_columns:
  "columns (apply_basic_imputation_for_inference df info) = columns df"
proof -
  have z: "columns (fill_zero_cols zs d) = columns d" for zs d
    by (induction zs arbitrary: d) (auto simp: update_col_columns)
  have m: "columns (fill_median_cols ms d) = columns d" for ms d
    by (induction ms arbitrary: d) (auto simp: update_col_columns)
  show ?thesis
    by (simp add: apply_basic_imputation_for_inference_def columns_fillna_frame z m
        split: option.splits)
qed

lemma inference_matrix_nrows: "nrows (inference_matrix b f) = nrows f"
  by (simp add: inference_matrix_def reindex_nrows imputation_nrows select_dtypes_number_def)

lemma map_of_reindex:
  "c \<in> set cs \<Longrightarrow>
   map_of (cols (reindex cs v df)) c =
     Some (case map_of (cols df) c of Some col \<Rightarrow> col
           | None \<Rightarrow> NumCol (replicate (nrows df) (Some v)))"
  by (simp add: reindex_def map_of_map_restrict)

lemma map_of_absent: "c \<notin> set (columns df) \<Longrightarrow> map_of (cols df) c = None"
  by (simp add: columns_def map_of_eq_None_iff)

lemma replay_ignores_sentinels:
  "apply_basic_imputation_for_inference df (Some (p\<lparr>sentinel_cols := s\<rparr>))
     = apply_basic_imputation_for_inference df (Some p)"
  by (simp add: apply_basic_imputation_for_inference_def)

text \<open>
  Claim C7. The replay of a plan (whose \<^verbatim>\<open>median_cols\<close> is a dictionary: no key twice) leaves
  the columns of the frame in place and fills every missing cell: with 0 in a zero-fill
  column, with the stored median in a median-fill column, with 0 elsewhere. Plan columns
  that the frame does not have are skipped, and the replayed frame has no missing cell.
  The value is \<open>plan_fill_value\<close>: zero-fill wins over median-fill, and a stored median
  that is NaN ends as 0.
\<close>

theorem replay_fills_plan_columns:
  assumes "distinct (map fst (median_cols p))"
  shows "apply_basic_imputation_for_inference df (Some p) =
           df\<lparr>cols := map (\<lambda>(n, col). (n, fillna (plan_fill_value p n) col)) (cols df)\<rparr>
         \<and> no_nulls (apply_basic_imputation_for_inference df (Some p))"
proof -
  have a: "apply_basic_imputation_for_inference df (Some p) =
           df\<lparr>cols := map (\<lambda>(n, col). (n, fillna (plan_fill_value p n) col)) (cols df)\<rparr>"
    by (rule replay_eq[OF assms])
  have b: "no_nulls (apply_basic_imputation_for_inference df (Some p))"
    by (rule imputation_no_nulls)
  show ?thesis using a b by blast
qed

text \<open>The example of the claim: zero-fill \<^verbatim>\<open>clicks_count\<close>, median 5.0 for \<^verbatim>\<open>x\<close>; the plan
  columns \<^verbatim>\<open>views_count\<close> and \<^verbatim>\<open>z\<close> are not in the frame.\<close>

theorem replay_fills_plan_columns_witness:
  "distinct (map fst (median_cols c7_plan)) \<and>
   apply_basic_imputation_for_inference c7_frame (Some c7_plan) =
     \<lparr>nrows = 2, cols = [(''x'', NumCol [Some 7, Some 5]),
                        (''clicks_count'', NumCol [Some 0, Some 3]),
                        (''other'', NumCol [Some 0, Some 1])]\<rparr>
   \<and> no_nulls (apply_basic_imputation_for_inference c7_frame (Some c7_plan))"
  using replay_fills_plan_columns[of c7_plan c7_frame]
  by (simp add: c7_plan_def c7_frame_def plan_fill_value_def no_nulls_def)

text \<open>
  Claim C4, as stated, asks for a warning when the bundle has no imputation info. Prediction
  on \<open>c4_frame\<close>, which has a missing value, with the plan-less \<open>c4_payload\<close> prints nothing.
\<close>

theorem no_plan_warning_counterexample:
  "imputation_info c4_payload = None
   \<and> \<not> no_nulls c4_frame
   \<and> fst (predict_vcvr_from_features c4_payload c4_frame) = None"
  by (simp add: c4_payload_def c4_frame_def no_nulls_def predict_vcvr_from_features_def
      missing_cols_warning_def select_dtypes_number_def apply_basic_imputation_for_inference_def
      fillna_frame_def columns_def)

text \<open>
  Claim C4, amended. When the bundle has no imputation info, prediction does not fail:
  every missing value of the numeric input is filled with 0, the matrix is the reindexed
  result, and the only message is the count of the missing feature columns, when there are
  some; no message tells of the missing plan.
\<close>

theorem no_plan_fills_zero:
  assumes "imputation_info b = None"
  shows "apply_basic_imputation_for_inference df (imputation_info b) = fillna_frame 0 df
     \<and> no_nulls (fillna_frame 0 df)
     \<and> inference_matrix b features =
         reindex (feature_columns b) 0 (fillna_frame 0 (select_dtypes_number features))
     \<and> fst (predict_vcvr_from_features b features) =
         (let missing_cols = filter (\<lambda>c. c \<notin> set (columns (select_dtypes_number features)))
                               (feature_columns b)
          in if missing_cols \<noteq> [] then Some (length missing_cols) else None)"
  using assms
  by (simp add: apply_basic_imputation_for_inference_def no_nulls_fillna_frame
      inference_matrix_def predict_vcvr_from_features_def missing_cols_warning_def
      columns_fillna_frame Let_def)

theorem no_plan_fills_zero_witness:
  "imputation_info c4_payload = None
   \<and> inference_matrix c4_payload c4_frame = \<lparr>nrows = 2, cols = [(''a'', NumCol [Some 1, Some 0])]\<rparr>
   \<and> predict_vcvr_from_features c4_payload c4_frame = (None, [0, 0])"
  using no_plan_fills_zero[of c4_payload c4_frame c4_frame]
  by (simp add: c4_payload_def c4_frame_def predict_vcvr_from_features_def
      select_dtypes_number_def fillna_frame_def reindex_def columns_def matrix_rows_def
      upt_rec[of 0] upt_rec[of 1] upt_rec[of 2] numeral_2_eq_2)

text \<open>
  Claim C6. For every bundle and every input frame, the matrix given to the regressor has
  exactly the bundle's feature columns, in their order, and the rows of the input; a feature
  column that the numeric input lacks is created, every cell 0; and prediction returns one
  value per input row, the value of the regressor on that row of the matrix.
\<close>

theorem predict_matrix_shape:
  "columns (inference_matrix b features) = feature_columns b
   \<and> nrows (inference_matrix b features) = nrows features
   \<and> (\<forall>c \<in> set (feature_columns b).
         c \<notin> set (columns (select_dtypes_number features)) \<longrightarrow>
         map_of (cols (inference_matrix b features)) c
           = Some (NumCol (replicate (nrows features) (Some 0))))
   \<and> length (snd (predict_vcvr_from_features b features)) = nrows features
   \<and> (\<forall>i < nrows features.
         snd (predict_vcvr_from_features b features) ! i
           = model b (matrix_rows (inference_matrix b features) ! i))"
proof (intro conjI ballI impI allI)
  show "columns (inference_matrix b features) = feature_columns b"
    by (simp add: inference_matrix_def reindex_columns)
  show "nrows (inference_matrix b features) = nrows features"
    by (rule inference_matrix_nrows)
  show "length (snd (predict_vcvr_from_features b features)) = nrows features"
    by (simp add: predict_vcvr_from_features_def matrix_rows_def inference_matrix_nrows)
next
  fix c assume c: "c \<in> set (feature_columns b)"
    and a: "c \<notin> set (columns (select_dtypes_number features))"
  let ?F = "apply_basic_imputation_for_inference (select_dtypes_number features)
              (imputation_info b)"
  have "c \<notin> set (columns ?F)" using a by (simp add: imputation_columns)
  then have n: "map_of (cols ?F) c = None" by (rule map_of_absent)
  have r: "nrows ?F = nrows features" by (simp add: imputation_nrows select_dtypes_number_def)
  show "map_of (cols (inference_matrix b features)) c
           = Some (NumCol (replicate (nrows features) (Some 0)))"
    by (simp add: inference_matrix_def map_of_reindex[OF c] n r)
next
  fix i assume i: "i < nrows features"
  then have "i < length (matrix_rows (inference_matrix b features))"
    by (simp add: matrix_rows_def inference_matrix_nrows)
  then show "snd (predict_vcvr_from_features b features) ! i
           = model b (matrix_rows (inference_matrix b features) ! i)"
    by (simp add: predict_vcvr_from_features_def)
qed

text \<open>An input with the columns in another order, a text column \<^verbatim>\<open>t\<close>, an extra column and
  no column \<^verbatim>\<open>b\<close>.\<close>

theorem predict_matrix_shape_witness:
  "inference_matrix c6_payload c6_frame =
     \<lparr>nrows = 2, cols = [(''b'', NumCol [Some 0, Some 0]), (''a'', NumCol [Some 1, Some 4]),
                        (''t'', NumCol [Some 0, Some 0])]\<rparr>
   \<and> columns (inference_matrix c6_payload c6_frame) = [''b'', ''a'', ''t'']
   \<and> ''b'' \<in> set (feature_columns c6_payload)
   \<and> ''b'' \<notin> set (columns (select_dtypes_number c6_frame))
   \<and> map_of (cols (inference_matrix c6_payload c6_frame)) ''b'' = Some (NumCol [Some 0, Some 0])
   \<and> (0::nat) < nrows c6_frame
   \<and> predict_vcvr_from_features c6_payload c6_frame = (Some 2, [1, 4])"
proof -
  have m: "inference_matrix c6_payload c6_frame =
     \<lparr>nrows = 2, cols = [(''b'', NumCol [Some 0, Some 0]), (''a'', NumCol [Some 1, Some 4]),
                        (''t'', NumCol [Some 0, Some 0])]\<rparr>"
    by (simp add: inference_matrix_def c6_payload_def c6_frame_def select_dtypes_number_def
        apply_basic_imputation_for_inference_def fillna_frame_def update_col_def columns_def
        reindex_def numeral_2_eq_2)
  have w: "missing_cols_warning c6_payload c6_frame = Some 2"
    by (simp add: missing_cols_warning_def imputation_columns)
       (simp add: c6_payload_def c6_frame_def select_dtypes_number_def columns_def)
  have r: "matrix_rows (inference_matrix c6_payload c6_frame)
             = [[Some 0, Some 1, Some 0], [Some 0, Some 4, Some 0]]"
    unfolding m
    by (simp add: matrix_rows_def upt_rec[of 0] upt_rec[of 1] upt_rec[of 2] numeral_2_eq_2)
  have p: "predict_vcvr_from_features c6_payload c6_frame = (Some 2, [1, 4])"
    unfolding predict_vcvr_from_features_def r w by (simp add: c6_payload_def)
  from predict_matrix_shape[of c6_payload c6_frame] m p show ?thesis
    by (simp add: c6_payload_def c6_frame_def select_dtypes_number_def columns_def numeral_2_eq_2)
qed

text \<open>
  Claim C10. Prediction never reads the \<^verbatim>\<open>sentinel_cols\<close> entry of the plan: any other value
  of that entry gives the same matrix. For a plan that has no median for \<^verbatim>\<open>RANK\<close> (training
  never stores one, see \<open>impute_loop\<close>), a missing \<^verbatim>\<open>RANK\<close> of the input becomes 0, not the
  sentinel \<open>-1\<close>; and when the input has no \<^verbatim>\<open>RANK_missing\<close> column, the matrix gets one whose
  cells are all 0.
\<close>

theorem sentinel_not_replayed:
  assumes info: "imputation_info b = Some p"
    and dict: "distinct (map fst (median_cols p))"
    and nomed: "''RANK'' \<notin> fst ` set (median_cols p)"
  shows "inference_matrix (b\<lparr>imputation_info := Some (p\<lparr>sentinel_cols := s\<rparr>)\<rparr>) features
           = inference_matrix b features
     \<and> (''RANK'' \<in> set (feature_columns b) \<longrightarrow>
          map_of (cols features) ''RANK'' = Some (NumCol xs) \<longrightarrow>
          map_of (cols (inference_matrix b features)) ''RANK''
            = Some (NumCol (map (\<lambda>x. case x of None \<Rightarrow> Some 0 | Some a \<Rightarrow> Some a) xs)))
     \<and> (''RANK_missing'' \<in> set (feature_columns b) \<longrightarrow>
          ''RANK_missing'' \<notin> set (columns features) \<longrightarrow>
          map_of (cols (inference_matrix b features)) ''RANK_missing''
            = Some (NumCol (replicate (nrows features) (Some 0))))"
proof (intro conjI impI)
  show "inference_matrix (b\<lparr>imputation_info := Some (p\<lparr>sentinel_cols := s\<rparr>)\<rparr>) features
           = inference_matrix b features"
    by (simp add: inference_matrix_def info replay_ignores_sentinels)
next
  assume fc: "''RANK'' \<in> set (feature_columns b)"
    and rk: "map_of (cols features) ''RANK'' = Some (NumCol xs)"
  have v: "plan_fill_value p ''RANK'' = 0"
    using nomed by (simp add: plan_fill_value_def map_of_eq_None_iff[THEN iffD2])
  have sel: "map_of (cols (select_dtypes_number features)) ''RANK'' = Some (NumCol xs)"
    unfolding select_dtypes_number_def
    using map_of_filter_keep[OF rk, of "\<lambda>(n, col). is_numeric col"]
    by simp
  have "map_of (cols (apply_basic_imputation_for_inference (select_dtypes_number features)
                        (Some p))) ''RANK''
      = Some (fillna 0 (NumCol xs))"
    by (simp add: replay_eq[OF dict] map_of_map_col sel v)
  then show "map_of (cols (inference_matrix b features)) ''RANK''
            = Some (NumCol (map (\<lambda>x. case x of None \<Rightarrow> Some 0 | Some a \<Rightarrow> Some a) xs))"
    by (simp add: inference_matrix_def info map_of_reindex[OF fc])
next
  assume fc: "''RANK_missing'' \<in> set (feature_columns b)"
    and ab: "''RANK_missing'' \<notin> set (columns features)"
  let ?F = "apply_basic_imputation_for_inference (select_dtypes_number features)
              (imputation_info b)"
  have "set (columns (select_dtypes_number features)) \<subseteq> set (columns features)"
    by (auto simp: select_dtypes_number_def columns_def)
  then have "''RANK_missing'' \<notin> set (columns ?F)"
    using ab by (auto simp: imputation_columns)
  then have n: "map_of (cols ?F) ''RANK_missing'' = None" by (rule map_of_absent)
  have r: "nrows ?F = nrows features" by (simp add: imputation_nrows select_dtypes_number_def)
  show "map_of (cols (inference_matrix b features)) ''RANK_missing''
            = Some (NumCol (replicate (nrows features) (Some 0)))"
    by (simp add: inference_matrix_def map_of_reindex[OF fc] n r)
qed

theorem sentinel_not_replayed_witness:
  "imputation_info c10_payload = Some c10_plan
   \<and> distinct (map fst (median_cols c10_plan))
   \<and> ''RANK'' \<notin> fst ` set (median_cols c10_plan)
   \<and> sentinel_cols c10_plan = [(''RANK'', - 1)]
   \<and> ''RANK'' \<in> set (feature_columns c10_payload)
   \<and> map_of (cols c10_frame) ''RANK'' = Some (NumCol [None, Some 7])
   \<and> map_of (cols (inference_matrix c10_payload c10_frame)) ''RANK''
        = Some (NumCol [Some 0, Some 7])
   \<and> ''RANK_missing'' \<in> set (feature_columns c10_payload)
   \<and> ''RANK_missing'' \<notin> set (columns c10_frame)
   \<and> map_of (cols (inference_matrix c10_payload c10_frame)) ''RANK_missing''
        = Some (NumCol [Some 0, Some 0])"
  using sentinel_not_replayed[where b = c10_payload and p = c10_plan and features = c10_frame
      and xs = "[None, Some 7]" and s = "[]"]
  by (simp add: c10_payload_def c10_plan_def c10_frame_def columns_def numeral_2_eq_2)

section \<open>Training: evaluation at concrete datasets\<close>

lemma clean_and_impute_steps:
  assumes "drop_missing_target df = Inr df1"
    and "special_rank df1 = Inr (df2, sent)"
    and "drop_columns (cols_to_drop df2) df2 = df3"
    and "map_of (cols df3) TARGET_COL = Some t"
    and "astype_float pf t = Inr target"
    and "select_dtypes_number
           (drop_columns (filter (\<lambda>c. c \<in> set (columns df3)) ID_COLS @ [TARGET_COL]) df3) = F0"
    and "impute_loop (columns F0) (F0, [], []) = (F, zs, ms)"
    and "build_sample_weight pf df3 (nrows F) = Inr w"
  shows "clean_and_impute pf df =
           Inr \<lparr>fit_X = F, fit_y = target,
                fit_info = \<lparr>zero_cols = zs, median_cols = ms, dropped_cols = cols_to_drop df2,
                            sentinel_cols = sent\<rparr>,
                fit_sample_weight = w, fit_nan_warning = nan_check F\<rparr>"
  using assms by (simp add: clean_and_impute_def Let_def)

lemma clean_and_impute_InrD:
  assumes "clean_and_impute pf df = Inr res"
  obtains df1 df2 sent df3 t F0 zs ms where
    "drop_missing_target df = Inr df1"
    "special_rank df1 = Inr (df2, sent)"
    "df3 = drop_columns (cols_to_drop df2) df2"
    "map_of (cols df3) TARGET_COL = Some t"
    "astype_float pf t = Inr (fit_y res)"
    "F0 = select_dtypes_number
           (drop_columns (filter (\<lambda>c. c \<in> set (columns df3)) ID_COLS @ [TARGET_COL]) df3)"
    "impute_loop (columns F0) (F0, [], []) = (fit_X res, zs, ms)"
    "build_sample_weight pf df3 (nrows (fit_X res)) = Inr (fit_sample_weight res)"
    "fit_info res = \<lparr>zero_cols = zs, median_cols = ms, dropped_cols = cols_to_drop df2,
                            sentinel_cols = sent\<rparr>"
    "fit_nan_warning res = nan_check (fit_X res)"
  using assms
  by (auto simp: clean_and_impute_def Let_def split: sum.splits option.splits prod.splits)

lemmas frame_ops = drop_missing_target_def TARGET_COL_def ID_COLS_def INTERNAL_FLAG_COL_def
  filter_rows_def keep_rows_def special_rank_def assign_col_def update_col_def columns_def
  isnull_int_def cols_to_drop_def missing_ratio_def drop_columns_def select_dtypes_number_def
  special_impute_cols_def

text \<open>The name test of the loop on names with letters outside ASCII: a dotless i (U+0131)
  has the upper case I, an e with acute accent has no ASCII upper case.\<close>

lemma zero_like_dotless_i:
  "zero_like [CHR ''r'', CHR ''a'', CHR ''t'', CHR 0xC4, CHR 0xB1, CHR ''o'']"
  by (simp add: zero_like_def upper_def upper_char_def special_upper_def sublist_code
      prefix_code)

lemma not_zero_like_accent:
  "\<not> zero_like [CHR ''r'', CHR ''a'', CHR ''t'', CHR 0xC3, CHR 0xA9, CHR ''o'']"
  by (simp add: zero_like_def upper_def upper_char_def special_upper_def sublist_code
      prefix_code)

text \<open>The category statistics of a boolean target; the text of the last row, which has no
  key, is not read.\<close>

lemma groupby_agg_boolean_target:
  "groupby_agg (ObjCol [Some (Tx ''a''), Some (Tx ''b''), Some (Tx ''a''), None])
               (ObjCol [Some (Bl True), Some (Bl False), Some (Bl False), Some (Tx ''x'')])
     = Inr [(Tx ''b'', Some 0, Some 0, Some 1), (Tx ''a'', Some (1 / 2), Some (1 / 2), Some 2)]"
  by (simp add: Let_def present_def group_values_def List.map_filter_def mean_of_def
      median_of_def)

text \<open>
  Claim C2 says that fit completes on a dataset that has a \<^verbatim>\<open>RANK\<close> column and no
  \<^verbatim>\<open>Category\<close> column. On \<open>c2_frame\<close>, such a dataset, \<^verbatim>\<open>clean_and_impute\<close> ends with the
  exception for the unassigned local variable \<^verbatim>\<open>cat_stats\<close>, whatever the float parser.
\<close>

theorem rank_without_category_raises:
  "clean_and_impute pf c2_frame = Inl (UnboundLocalError ''cat_stats'')"
proof -
  have 1: "drop_missing_target c2_frame = Inr c2_frame"
    by (simp add: c2_frame_def frame_ops)
  have 2: "special_rank c2_frame = Inl (UnboundLocalError ''cat_stats'')"
    by (simp add: c2_frame_def frame_ops Let_def)
  show ?thesis by (simp add: clean_and_impute_def 1 2)
qed

text \<open>
  Claim C3 says that the \<^verbatim>\<open>Category\<close> column alone brings the category statistics. On
  \<open>c3_frame\<close>, which has \<^verbatim>\<open>Category\<close> and no \<^verbatim>\<open>RANK\<close>, the returned features are the column
  \<^verbatim>\<open>speed\<close> only: no statistic is computed or joined.
\<close>

theorem category_without_rank_not_enriched:
  "clean_and_impute pf c3_frame =
     Inr \<lparr>fit_X = \<lparr>nrows = 2, cols = [(''speed'', NumCol [Some 2, Some 4])]\<rparr>,
          fit_y = [Some 1, Some 3],
          fit_info = \<lparr>zero_cols = [], median_cols = [], dropped_cols = [], sentinel_cols = []\<rparr>,
          fit_sample_weight = [Some 1, Some 1],
          fit_nan_warning = None\<rparr>"
proof -
  let ?G = "\<lparr>nrows = 2, cols = [(''speed'', NumCol [Some 2, Some 4])]\<rparr>"
  have 1: "drop_missing_target c3_frame = Inr c3_frame"
    by (simp add: c3_frame_def frame_ops)
  have 2: "special_rank c3_frame = Inr (c3_frame, [])"
    by (simp add: c3_frame_def frame_ops)
  have d: "cols_to_drop c3_frame = []"
    by (simp add: c3_frame_def frame_ops)
  have 3: "drop_columns (cols_to_drop c3_frame) c3_frame = c3_frame"
    unfolding d by (simp add: c3_frame_def frame_ops)
  have 4: "map_of (cols c3_frame) TARGET_COL = Some (NumCol [Some 1, Some 3])"
    by (simp add: c3_frame_def frame_ops)
  have 5: "astype_float pf (NumCol [Some 1, Some 3]) = Inr [Some 1, Some 3]" by simp
  have 6: "select_dtypes_number
           (drop_columns (filter (\<lambda>c. c \<in> set (columns c3_frame)) ID_COLS @ [TARGET_COL])
              c3_frame) = ?G"
    by (simp add: c3_frame_def frame_ops)
  have 7: "impute_loop (columns ?G) (?G, [], []) = (?G, [], [])"
    by (simp add: frame_ops)
  have 8: "build_sample_weight pf c3_frame (nrows ?G) = Inr [Some 1, Some 1]"
    by (simp add: build_sample_weight_def base_weight_def c3_frame_def frame_ops numeral_2_eq_2)
  have 9: "nan_check ?G = None"
    by (simp add: nan_check_def no_nulls_def)
  show ?thesis
    using clean_and_impute_steps[OF 1 2 3 4 5 6 7 8] by (simp add: d 9)
qed

text \<open>
  Claim C9 says that for every dataset with a \<^verbatim>\<open>RANK\<close> column fit creates the indicator
  \<^verbatim>\<open>RANK_missing\<close>, puts the sentinel in place of the missing ranks and records it in the
  plan. On \<open>c9_bare_frame\<close>, which has \<^verbatim>\<open>RANK\<close> with two missing values and no \<^verbatim>\<open>Category\<close>
  column, \<^verbatim>\<open>clean_and_impute\<close> ends with the exception for the unassigned local variable
  \<^verbatim>\<open>cat_stats\<close>, raised after the indicator and the sentinel were written: no feature matrix
  and no plan come out.
\<close>

theorem rank_indicator_lost_without_category:
  "special_rank c9_bare_frame = Inl (UnboundLocalError ''cat_stats'')
   \<and> clean_and_impute pf c9_bare_frame = Inl (UnboundLocalError ''cat_stats'')"
proof -
  have 1: "drop_missing_target c9_bare_frame = Inr c9_bare_frame"
    by (simp add: c9_bare_frame_def frame_ops)
  have 2: "special_rank c9_bare_frame = Inl (UnboundLocalError ''cat_stats'')"
    by (simp add: c9_bare_frame_def frame_ops Let_def)
  show ?thesis by (simp add: clean_and_impute_def 1 2)
qed

text \<open>
  Claim C5 says that the weight is never missing, also for a row whose volume is missing.
  On \<open>c5_frame\<close> the first row has no \<^verbatim>\<open>Clicks\<close> value (one of three, so the column is
  kept): its weight is NaN. The other two rows have the weights of the claim,
  \<open>sqrt 4 * 1\<close> and \<open>sqrt 1000 * 2\<close>. The features are imputed, the weights are not:
  they are read from the frame before imputation.
\<close>

theorem missing_volume_gives_missing_weight:
  "clean_and_impute pf c5_frame =
     Inr \<lparr>fit_X = \<lparr>nrows = 3, cols = [(''Clicks'', NumCol [Some 1002, Some 4, Some 2000]),
                                     (''IsInternal'', NumCol [Some 1, Some 0, Some 1])]\<rparr>,
          fit_y = [Some 1, Some 2, Some 3],
          fit_info = \<lparr>zero_cols = [], median_cols = [(''Clicks'', Some 1002)], dropped_cols = [],
                      sentinel_cols = []\<rparr>,
          fit_sample_weight = [None, Some 2, Some (sqrt 1000 * 2)],
          fit_nan_warning = None\<rparr>"
proof -
  let ?G = "\<lparr>nrows = 3, cols = [(''Clicks'', NumCol [None, Some 4, Some 2000]),
                                     (''IsInternal'', NumCol [Some 1, Some 0, Some 1])]\<rparr>"
  let ?F = "\<lparr>nrows = 3, cols = [(''Clicks'', NumCol [Some 1002, Some 4, Some 2000]),
                                     (''IsInternal'', NumCol [Some 1, Some 0, Some 1])]\<rparr>"
  have 1: "drop_missing_target c5_frame = Inr c5_frame"
    by (simp add: c5_frame_def frame_ops)
  have 2: "special_rank c5_frame = Inr (c5_frame, [])"
    by (simp add: c5_frame_def frame_ops)
  have d: "cols_to_drop c5_frame = []"
    by (simp add: c5_frame_def frame_ops)
  have 3: "drop_columns (cols_to_drop c5_frame) c5_frame = c5_frame"
    unfolding d by (simp add: c5_frame_def frame_ops)
  have 4: "map_of (cols c5_frame) TARGET_COL = Some (NumCol [Some 1, Some 2, Some 3])"
    by (simp add: c5_frame_def frame_ops)
  have 5: "astype_float pf (NumCol [Some 1, Some 2, Some 3]) = Inr [Some 1, Some 2, Some 3]"
    by simp
  have 6: "select_dtypes_number
           (drop_columns (filter (\<lambda>c. c \<in> set (columns c5_frame)) ID_COLS @ [TARGET_COL])
              c5_frame) = ?G"
    by (simp add: c5_frame_def frame_ops)
  have z: "\<not> zero_like ''Clicks''"
    by (simp add: zero_like_def upper_def upper_char_def special_upper_def sublist_code
        prefix_code)
  have md: "median_of (present [None, Some 4, Some 2000]) = Some 1002"
    by (simp add: median_of_def present_def List.map_filter_def)
  have 7: "impute_loop (columns ?G) (?G, [], []) = (?F, [], [(''Clicks'', Some 1002)])"
    by (simp add: frame_ops z md Let_def)
  have 8: "build_sample_weight pf c5_frame (nrows ?F)
             = Inr [None, Some 2, Some (sqrt 1000 * 2)]"
    by (simp add: build_sample_weight_def base_weight_def c5_frame_def frame_ops)
  have 9: "nan_check ?F = None"
    by (simp add: nan_check_def no_nulls_def)
  show ?thesis
    using clean_and_impute_steps[OF 1 2 3 4 5 6 7 8] by (simp add: d 9)
qed


text \<open>
  Claim C8, as stated, protects the sentinel column and the indicator of a sentinel. On
  \<open>c8_stray_frame\<close>, which has no \<^verbatim>\<open>RANK\<close> column, the plan has no sentinel; the column
  \<^verbatim>\<open>RANK_missing\<close> is not the target, two thirds of its values are missing, and it is neither
  dropped nor recorded: it is in the returned matrix.
\<close>

theorem stray_indicator_not_pruned:
  "clean_and_impute never_float c8_stray_frame =
     Inr \<lparr>fit_X = \<lparr>nrows = 3, cols = [(''RANK_missing'', NumCol [None, None, Some 0])]\<rparr>,
          fit_y = [Some 1, Some 2, Some 3],
          fit_info = \<lparr>zero_cols = [], median_cols = [], dropped_cols = [], sentinel_cols = []\<rparr>,
          fit_sample_weight = [Some 1, Some 1, Some 1],
          fit_nan_warning = Some 2\<rparr>
   \<and> missing_ratio (NumCol [None, None, Some 0]) = Some (2 / 3)
   \<and> (0.40 :: real) < 2 / 3"
proof -
  let ?F = "\<lparr>nrows = 3, cols = [(''RANK_missing'', NumCol [None, None, Some 0])]\<rparr>"
  have 1: "drop_missing_target c8_stray_frame = Inr c8_stray_frame"
    by (simp add: c8_stray_frame_def frame_ops)
  have 2: "special_rank c8_stray_frame = Inr (c8_stray_frame, [])"
    by (simp add: c8_stray_frame_def frame_ops)
  have d: "cols_to_drop c8_stray_frame = []"
    by (simp add: c8_stray_frame_def frame_ops)
  have 3: "drop_columns (cols_to_drop c8_stray_frame) c8_stray_frame = c8_stray_frame"
    unfolding d by (simp add: c8_stray_frame_def frame_ops)
  have 4: "map_of (cols c8_stray_frame) TARGET_COL = Some (NumCol [Some 1, Some 2, Some 3])"
    by (simp add: c8_stray_frame_def frame_ops)
  have 5: "astype_float never_float (NumCol [Some 1, Some 2, Some 3])
             = Inr [Some 1, Some 2, Some 3]"
    by simp
  have 6: "select_dtypes_number
           (drop_columns (filter (\<lambda>c. c \<in> set (columns c8_stray_frame)) ID_COLS @ [TARGET_COL])
              c8_stray_frame) = ?F"
    by (simp add: c8_stray_frame_def frame_ops)
  have 7: "impute_loop (columns ?F) (?F, [], []) = (?F, [], [])"
    by (simp add: frame_ops)
  have 8: "build_sample_weight never_float c8_stray_frame (nrows ?F)
             = Inr [Some 1, Some 1, Some 1]"
    by (simp add: build_sample_weight_def base_weight_def c8_stray_frame_def frame_ops
        numeral_3_eq_3)
  have 9: "nan_check ?F = Some 2"
    by (simp add: nan_check_def no_nulls_def rows_with_null_def upt_rec[of 0] upt_rec[of 1]
        upt_rec[of 2] upt_rec[of 3] eval_nat_numeral)
  have r: "missing_ratio (NumCol [None, None, Some 0]) = Some (2 / 3)"
    by (simp add: missing_ratio_def)
  show ?thesis
    using clean_and_impute_steps[OF 1 2 3 4 5 6 7 8] r by (simp add: d 9)
qed

section \<open>Training: the steps in general\<close>

lemma drop_missing_target_columns:
  "drop_missing_target df = Inr df1 \<Longrightarrow> columns df1 = columns df"
  by (auto simp: drop_missing_target_def filter_rows_def columns_def split: option.splits)

lemma map_of_update_col:
  "map_of (cols (update_col c f df)) k
     = (if k = c then map_option f (map_of (cols df) k) else map_of (cols df) k)"
proof -
  have "map_of (map (\<lambda>(n, col). if n = c then (n, f col) else (n, col)) xs) k
     = (if k = c then map_option f (map_of xs k) else map_of xs k)" for xs
    by (induction xs) auto
  then show ?thesis by (simp add: update_col_def)
qed

lemma map_of_assign_col:
  "map_of (cols (assign_col c col df)) k = (if k = c then Some col else map_of (cols df) k)"
proof (cases "c \<in> set (columns df)")
  case True
  then have "map_of (cols df) c \<noteq> None" by (simp add: columns_def map_of_eq_None_iff)
  then obtain v where "map_of (cols df) c = Some v" by blast
  then show ?thesis using True by (simp add: assign_col_def map_of_update_col)
next
  case False
  then have "map_of (cols df) c = None" by (simp add: columns_def map_of_eq_None_iff)
  then show ?thesis using False by (auto simp: assign_col_def map_add_def split: option.splits)
qed

lemma map_of_drop_columns:
  "map_of (cols (drop_columns D df)) k = (if k \<in> set D then None else map_of (cols df) k)"
proof -
  have "map_of (filter (\<lambda>(n, col). n \<notin> set D) xs) k
          = (if k \<in> set D then None else map_of xs k)" for xs :: "(string \<times> column) list"
    by (induction xs) auto
  then show ?thesis by (simp add: drop_columns_def)
qed

lemma map_of_select:
  "map_of (cols df) k = Some v \<Longrightarrow> is_numeric v \<Longrightarrow>
   map_of (cols (select_dtypes_number df)) k = Some v"
  unfolding select_dtypes_number_def
  using map_of_filter_keep[of "cols df" k v "\<lambda>(n, col). is_numeric col"] by simp

lemma map_of_rename:
  assumes "\<And>n. ren n = k \<longleftrightarrow> n = k"
  shows "map_of (map (\<lambda>(n, col). (ren n, col)) xs) k = map_of xs k"
proof (induction xs)
  case Nil
  show ?case by simp
next
  case (Cons a xs)
  obtain n col where a: "a = (n, col)" by (cases a)
  show ?case
  proof (cases "n = k")
    case True
    then have "ren n = k" using assms by blast
    then show ?thesis using True by (simp add: a)
  next
    case False
    then have "ren n \<noteq> k" using assms by blast
    then show ?thesis using False Cons.IH by (simp add: a)
  qed
qed

lemma if_Inr_D: "(if b then Inr x else Inl e) = Inr y \<Longrightarrow> b \<and> y = x"
  by (cases b) auto

lemma merge_left_InrD:
  assumes "merge_left df st = Inr df'"
  obtains cat where "map_of (cols df) ''Category'' = Some cat"
    and "cols df' = map (\<lambda>(n, col). (if n \<in> set stat_names then n @ ''_x'' else n, col)) (cols df)
                   @ map (\<lambda>(n, col). (if n \<in> set (columns df) then n @ ''_y'' else n, col))
                       (stat_columns st cat)"
    and "distinct (columns df')" and "nrows df' = nrows df"
proof -
  have "map_of (cols df) ''Category'' \<noteq> None"
  proof
    assume "map_of (cols df) ''Category'' = None"
    with assms show False by (simp only: merge_left_def option.case sum.distinct)
  qed
  then obtain cat where c: "map_of (cols df) ''Category'' = Some cat" by blast
  let ?L = "map (\<lambda>(n, col). (if n \<in> set stat_names then n @ ''_x'' else n, col)) (cols df)"
  let ?R = "map (\<lambda>(n, col). (if n \<in> set (columns df) then n @ ''_y'' else n, col))
                       (stat_columns st cat)"
  from assms have m: "(if distinct (map fst (?L @ ?R)) then Inr (df\<lparr>cols := ?L @ ?R\<rparr>)
                       else Inl MergeError) = Inr df'"
    by (simp only: merge_left_def Let_def c option.case)
  have d: "distinct (map fst (?L @ ?R))" and e: "df' = df\<lparr>cols := ?L @ ?R\<rparr>"
    using if_Inr_D[OF m] by (rule conjunct1, rule conjunct2)
  have ce: "cols df' = ?L @ ?R" by (simp add: e)
  have x: "map fst (cols df') = map fst (?L @ ?R)" using ce by (rule arg_cong)
  have "distinct (map fst (cols df'))" unfolding x by (rule d)
  then have dd: "distinct (columns df')" by (simp only: columns_def[of df'])
  show ?thesis
  proof (rule that[OF c])
    show "cols df' = ?L @ ?R" by (rule ce)
    show "distinct (columns df')" by (rule dd)
    show "nrows df' = nrows df" by (simp add: e)
  qed
qed

lemma fst_dict_set: "fst ` set (dict_set d k v) = insert k (fst ` set d)"
proof (induction d)
  case Nil
  then show ?case by simp
next
  case (Cons a d)
  obtain k' v' where a: "a = (k', v')" by (cases a)
  show ?case using Cons by (cases "k' = k") (auto simp: a)
qed

lemma distinct_dict_set: "distinct (map fst d) \<Longrightarrow> distinct (map fst (dict_set d k v))"
  by (induction d) (auto simp: fst_dict_set)

lemma impute_loop_special:
  assumes "impute_loop ns (F, zs, ms) = (F', zs', ms')" and "k \<in> set special_impute_cols"
  shows "map_of (cols F') k = map_of (cols F) k
       \<and> (k \<notin> set zs \<longrightarrow> k \<notin> set zs') \<and> (k \<notin> fst ` set ms \<longrightarrow> k \<notin> fst ` set ms')"
  using assms
proof (induction ns arbitrary: F zs ms)
  case Nil
  then show ?case by simp
next
  case (Cons n ns)
  show ?case
  proof (cases "n \<in> set special_impute_cols")
    case True
    with Cons.prems(1) have "impute_loop ns (F, zs, ms) = (F', zs', ms')" by simp
    then show ?thesis by (rule Cons.IH[OF _ Cons.prems(2)])
  next
    case False
    then have nk: "n \<noteq> k" using Cons.prems(2) by auto
    show ?thesis
    proof (cases "map_of (cols F) n")
      case None
      with Cons.prems(1) False have "impute_loop ns (F, zs, ms) = (F', zs', ms')" by simp
      then show ?thesis by (rule Cons.IH[OF _ Cons.prems(2)])
    next
      case (Some c)
      consider (skip) "nan_eq (missing_ratio c) 0"
        | (zero) "\<not> nan_eq (missing_ratio c) 0" "zero_like n"
        | (med) "\<not> nan_eq (missing_ratio c) 0" "\<not> zero_like n" by blast
      then show ?thesis
      proof cases
        case skip
        with Cons.prems(1) False Some have "impute_loop ns (F, zs, ms) = (F', zs', ms')" by simp
        then show ?thesis by (rule Cons.IH[OF _ Cons.prems(2)])
      next
        case zero
        from Cons.prems(1) False Some zero
        have "impute_loop ns (update_col n (fillna 0) F, zs @ [n], ms) = (F', zs', ms')" by simp
        from Cons.IH[OF this Cons.prems(2)] nk show ?thesis
          by (simp add: map_of_update_col)
      next
        case med
        from Cons.prems(1) False Some med
        have "impute_loop ns (update_col n (fillna_opt (series_median c)) F, zs,
                 dict_set ms n (series_median c)) = (F', zs', ms')" by (simp add: Let_def)
        from Cons.IH[OF this Cons.prems(2)] nk show ?thesis
          by (simp add: map_of_update_col fst_dict_set)
      qed
    qed
  qed
qed

lemma impute_loop_shape:
  assumes "impute_loop ns (F, zs, ms) = (F', zs', ms')"
  shows "columns F' = columns F \<and> nrows F' = nrows F"
  using assms
proof (induction ns arbitrary: F zs ms)
  case Nil
  then show ?case by simp
next
  case (Cons n ns)
  have upd: "columns (update_col n f F) = columns F \<and> nrows (update_col n f F) = nrows F" for f
    by (simp add: update_col_columns) (simp add: update_col_def)
  from Cons.prems consider
      (same) "impute_loop ns (F, zs, ms) = (F', zs', ms')"
    | (zero) "impute_loop ns (update_col n (fillna 0) F, zs @ [n], ms) = (F', zs', ms')"
    | (med) c where "impute_loop ns (update_col n (fillna_opt (series_median c)) F, zs,
                 dict_set ms n (series_median c)) = (F', zs', ms')"
    by (auto simp: Let_def split: if_splits option.splits)
  then show ?case
  proof cases
    case same
    then show ?thesis by (rule Cons.IH)
  next
    case zero
    from Cons.IH[OF this] upd show ?thesis by simp
  next
    case med
    from Cons.IH[OF this] upd show ?thesis by simp
  qed
qed

lemma protected_not_dropped:
  "k \<in> {TARGET_COL, ''RANK'', ''RANK_missing''} \<Longrightarrow> k \<notin> set (cols_to_drop df)"
  by (auto simp: cols_to_drop_def)

lemma special_rank_NoneD:
  "special_rank df1 = Inr (df2, sent) \<Longrightarrow> map_of (cols df1) ''RANK'' = None \<Longrightarrow>
   df2 = df1 \<and> sent = []"
  by (simp add: special_rank_def)

lemma special_rank_SomeD:
  assumes "special_rank df1 = Inr (df2, sent)" and "map_of (cols df1) ''RANK'' = Some r"
  obtains st where
    "merge_left (update_col ''RANK'' (fillna (- 1))
                   (assign_col ''RANK_missing'' (isnull_int r) df1)) st = Inr df2"
    and "sent = [(''RANK'', - 1)]"
  using assms
  by (simp add: special_rank_def Let_def split: option.splits sum.splits)

lemma special_rank_distinct:
  assumes "special_rank df1 = Inr (df2, sent)" and "distinct (columns df1)"
  shows "distinct (columns df2)"
proof (cases "map_of (cols df1) ''RANK''")
  case None
  with special_rank_NoneD[OF assms(1)] assms(2) show ?thesis by simp
next
  case (Some r)
  from special_rank_SomeD[OF assms(1) Some] obtain st where
    "merge_left (update_col ''RANK'' (fillna (- 1))
                   (assign_col ''RANK_missing'' (isnull_int r) df1)) st = Inr df2" by blast
  then show ?thesis by (rule merge_left_InrD)
qed

lemma rename_x_keeps:
  assumes "k = ''RANK'' \<or> k = ''RANK_missing''"
  shows "(if n \<in> set stat_names then n @ ''_x'' else n) = k \<longleftrightarrow> n = k"
  using assms by (auto simp: stat_names_def)

lemma merge_left_keeps:
  assumes m: "merge_left df st = Inr df'" and k: "k = ''RANK'' \<or> k = ''RANK_missing''"
    and v: "map_of (cols df) k = Some v"
  shows "map_of (cols df') k = Some v"
proof -
  from m obtain cat where
    c: "cols df' = map (\<lambda>(n, col). (if n \<in> set stat_names then n @ ''_x'' else n, col)) (cols df)
                   @ map (\<lambda>(n, col). (if n \<in> set (columns df) then n @ ''_y'' else n, col))
                       (stat_columns st cat)"
    by (rule merge_left_InrD)
  have "map_of (map (\<lambda>(n, col). (if n \<in> set stat_names then n @ ''_x'' else n, col)) (cols df)) k
          = Some v"
    using map_of_rename[of "\<lambda>n. if n \<in> set stat_names then n @ ''_x'' else n" k "cols df"]
      rename_x_keeps[OF k] v by simp
  then show ?thesis unfolding c by (simp only: map_of_append map_add_Some_iff) simp
qed

lemma mem_columns_map_of:
  "c \<in> set (columns df) \<Longrightarrow> \<exists>v. map_of (cols df) c = Some v"
proof -
  assume "c \<in> set (columns df)"
  then have "map_of (cols df) c \<noteq> None" by (simp add: columns_def map_of_eq_None_iff)
  then show ?thesis by blast
qed

lemma id_target_names:
  "k = ''RANK'' \<or> k = ''RANK_missing'' \<Longrightarrow>
   k \<notin> set (filter (\<lambda>c. c \<in> set (columns df)) ID_COLS @ [TARGET_COL])"
  by (auto simp: ID_COLS_def TARGET_COL_def)

lemma fit_keeps_special:
  assumes fit: "clean_and_impute pf df = Inr res"
    and k: "k = ''RANK'' \<or> k = ''RANK_missing''"
    and s1: "drop_missing_target df = Inr df1"
    and s2: "special_rank df1 = Inr (df2, sent)"
  shows "sentinel_cols (fit_info res) = sent"
    and "map_of (cols df2) k = Some v \<Longrightarrow> is_numeric v \<Longrightarrow>
              map_of (cols (fit_X res)) k = Some v"
    and "k \<notin> set (zero_cols (fit_info res))"
    and "k \<notin> fst ` set (median_cols (fit_info res))"
proof -
  from fit obtain df1' df2' sent' df3 t F0 zs ms where
    s1': "drop_missing_target df = Inr df1'"
    and s2': "special_rank df1' = Inr (df2', sent')"
    and s3': "df3 = drop_columns (cols_to_drop df2') df2'"
    and s6: "F0 = select_dtypes_number
           (drop_columns (filter (\<lambda>c. c \<in> set (columns df3)) ID_COLS @ [TARGET_COL]) df3)"
    and s7: "impute_loop (columns F0) (F0, [], []) = (fit_X res, zs, ms)"
    and s9': "fit_info res = \<lparr>zero_cols = zs, median_cols = ms, dropped_cols = cols_to_drop df2',
                            sentinel_cols = sent'\<rparr>"
    by (rule clean_and_impute_InrD)
  from s1 s1' have e1: "df1' = df1" by simp
  from s2 s2'[unfolded e1] have e2: "df2' = df2" and e3: "sent' = sent" by simp_all
  note s3 = s3'[unfolded e2] and s9 = s9'[unfolded e2 e3]
  have ks: "k \<in> set special_impute_cols" using k by (auto simp: special_impute_cols_def)
  have kp: "k \<in> {TARGET_COL, ''RANK'', ''RANK_missing''}" using k by auto
  from impute_loop_special[OF s7 ks]
  have l1: "map_of (cols (fit_X res)) k = map_of (cols F0) k"
    and l2: "k \<notin> set zs" and l3: "k \<notin> fst ` set ms" by simp_all
  show "sentinel_cols (fit_info res) = sent" by (simp add: s9)
  show "k \<notin> set (zero_cols (fit_info res))" by (simp add: s9 l2)
  show "k \<notin> fst ` set (median_cols (fit_info res))" using l3 by (simp add: s9)
  show "map_of (cols (fit_X res)) k = Some v"
    if v: "map_of (cols df2) k = Some v" and n: "is_numeric v"
  proof -
    have "map_of (cols df3) k = Some v"
      by (simp add: s3 map_of_drop_columns protected_not_dropped[OF kp] v)
    then have "map_of (cols (drop_columns (filter (\<lambda>c. c \<in> set (columns df3)) ID_COLS
                         @ [TARGET_COL]) df3)) k = Some v"
      using id_target_names[OF k, of df3] by (simp only: map_of_drop_columns if_False)
    then have "map_of (cols F0) k = Some v" unfolding s6 using n by (rule map_of_select)
    then show ?thesis by (simp add: l1)
  qed
qed

text \<open>
  The handling of \<^verbatim>\<open>RANK\<close> on the runs that return. A dataset with a \<^verbatim>\<open>RANK\<close> column and
  without a \<^verbatim>\<open>Category\<close> column never returns; when \<^verbatim>\<open>clean_and_impute\<close> returns on a dataset
  that has a \<^verbatim>\<open>RANK\<close> column, the feature matrix has the column \<^verbatim>\<open>RANK_missing\<close>, 1 exactly in
  the kept rows whose \<^verbatim>\<open>RANK\<close> was missing and 0 in the others; a numeric \<^verbatim>\<open>RANK\<close> is in the
  matrix with \<open>-1\<close> in place of every missing value; the plan records the sentinel \<open>-1\<close> for
  \<^verbatim>\<open>RANK\<close>; and neither column is in the zero-fill or the median-fill entry of the plan.
\<close>

lemma rank_without_category_never_returns:
  assumes rk: "''RANK'' \<in> set (columns df)" and nc: "''Category'' \<notin> set (columns df)"
  shows "clean_and_impute pf df \<noteq> Inr res"
proof
  assume fit: "clean_and_impute pf df = Inr res"
  from fit obtain df1 df2 sent where
    s1: "drop_missing_target df = Inr df1"
    and s2: "special_rank df1 = Inr (df2, sent)"
    by (rule clean_and_impute_InrD)
  have c1: "columns df1 = columns df" by (rule drop_missing_target_columns[OF s1])
  have "''RANK'' \<in> set (columns df1)" using rk c1 by simp
  then obtain r where r: "map_of (cols df1) ''RANK'' = Some r"
    using mem_columns_map_of by blast
  let ?B = "update_col ''RANK'' (fillna (- 1)) (assign_col ''RANK_missing'' (isnull_int r) df1)"
  from special_rank_SomeD[OF s2 r] obtain st where m: "merge_left ?B st = Inr df2" by blast
  from m obtain cat where c: "map_of (cols ?B) ''Category'' = Some cat"
    by (rule merge_left_InrD)
  have "map_of (cols df1) ''Category'' = None" using nc c1 by (simp add: map_of_absent)
  then have "map_of (cols ?B) ''Category'' = None"
    by (simp add: map_of_update_col map_of_assign_col)
  with c show False by simp
qed

lemma rank_sentinel_and_indicator:
  assumes fit: "clean_and_impute pf df = Inr res" and rk: "''RANK'' \<in> set (columns df)"
  shows "\<exists>df1 r. drop_missing_target df = Inr df1 \<and> map_of (cols df1) ''RANK'' = Some r
     \<and> map_of (cols (fit_X res)) ''RANK_missing'' = Some (isnull_int r)
     \<and> (is_numeric r \<longrightarrow> map_of (cols (fit_X res)) ''RANK'' = Some (fillna (- 1) r))
     \<and> sentinel_cols (fit_info res) = [(''RANK'', - 1)]
     \<and> ''RANK'' \<notin> set (zero_cols (fit_info res))
     \<and> ''RANK'' \<notin> fst ` set (median_cols (fit_info res))
     \<and> ''RANK_missing'' \<notin> set (zero_cols (fit_info res))
     \<and> ''RANK_missing'' \<notin> fst ` set (median_cols (fit_info res))"
proof -
  from fit obtain df1 df2 sent where
    s1: "drop_missing_target df = Inr df1"
    and s2: "special_rank df1 = Inr (df2, sent)"
    by (rule clean_and_impute_InrD)
  note R = fit_keeps_special[OF fit _ s1 s2, of "''RANK''", simplified]
  note M = fit_keeps_special[OF fit _ s1 s2, of "''RANK_missing''", simplified]
  have "''RANK'' \<in> set (columns df1)" using rk drop_missing_target_columns[OF s1] by simp
  then obtain r where r: "map_of (cols df1) ''RANK'' = Some r"
    using mem_columns_map_of by blast
  let ?B = "update_col ''RANK'' (fillna (- 1)) (assign_col ''RANK_missing'' (isnull_int r) df1)"
  from special_rank_SomeD[OF s2 r] obtain st where
    m: "merge_left ?B st = Inr df2" and sent: "sent = [(''RANK'', - 1)]" by blast
  have b1: "map_of (cols ?B) ''RANK_missing'' = Some (isnull_int r)"
    by (simp add: map_of_update_col map_of_assign_col)
  have b2: "map_of (cols ?B) ''RANK'' = Some (fillna (- 1) r)"
    by (simp add: map_of_update_col map_of_assign_col r)
  have d1: "map_of (cols df2) ''RANK_missing'' = Some (isnull_int r)"
    using merge_left_keeps[OF m _ b1] by simp
  have d2: "map_of (cols df2) ''RANK'' = Some (fillna (- 1) r)"
    using merge_left_keeps[OF m _ b2] by simp
  have x1: "map_of (cols (fit_X res)) ''RANK_missing'' = Some (isnull_int r)"
    by (rule M(2)[OF d1]) (simp add: isnull_int_def)
  have x2: "map_of (cols (fit_X res)) ''RANK'' = Some (fillna (- 1) r)" if "is_numeric r"
    by (rule R(2)[OF d2]) (use that in \<open>cases r; simp\<close>)
  show ?thesis
  proof (intro exI conjI impI)
    show "drop_missing_target df = Inr df1" by (rule s1)
    show "map_of (cols df1) ''RANK'' = Some r" by (rule r)
    show "map_of (cols (fit_X res)) ''RANK_missing'' = Some (isnull_int r)" by (rule x1)
    show "is_numeric r \<Longrightarrow> map_of (cols (fit_X res)) ''RANK'' = Some (fillna (- 1) r)"
      by (rule x2)
    show "sentinel_cols (fit_info res) = [(''RANK'', - 1)]" using R(1) sent by simp
    show "''RANK'' \<notin> set (zero_cols (fit_info res))" by (rule R(3))
    show "''RANK'' \<notin> fst ` set (median_cols (fit_info res))" by (rule R(4))
    show "''RANK_missing'' \<notin> set (zero_cols (fit_info res))" by (rule M(3))
    show "''RANK_missing'' \<notin> fst ` set (median_cols (fit_info res))" by (rule M(4))
  qed
qed

text \<open>A dataset with \<^verbatim>\<open>RANK\<close> and \<^verbatim>\<open>Category\<close>: one row without target, two missing ranks, one
  missing \<^verbatim>\<open>speed\<close>.\<close>

lemma c9_step1: "drop_missing_target c9_frame = Inr c9_filtered"
  by (simp add: c9_frame_def c9_filtered_def frame_ops)

lemma c9_groupby:
  "groupby_agg (ObjCol [Some (Tx ''a''), Some (Tx ''b''), Some (Tx ''a'')])
               (NumCol [Some 1, Some 3, Some 5])
     = Inr [(Tx ''b'', Some 3, Some 3, Some 1), (Tx ''a'', Some 3, Some 3, Some 2)]"
  by (simp add: Let_def present_def group_values_def List.map_filter_def mean_of_def
      median_of_def)

lemma c9_merge:
  "merge_left \<lparr>nrows = 3, cols = [(''VCVR'', NumCol [Some 1, Some 3, Some 5]),
                                  (''RANK'', NumCol [Some (- 1), Some 7, Some (- 1)]),
                                  (''Category'', ObjCol [Some (Tx ''a''), Some (Tx ''b''), Some (Tx ''a'')]),
                                  (''speed'', NumCol [Some 2, None, Some 8]),
                                  (''RANK_missing'', NumCol [Some 1, Some 0, Some 1])]\<rparr>
       [(Tx ''b'', Some 3, Some 3, Some 1), (Tx ''a'', Some 3, Some 3, Some 2)]
     = Inr c9_enriched"
  by (simp add: merge_left_def Let_def stat_names_def stat_columns_def columns_def
      c9_enriched_def)

lemma c9_step2: "special_rank c9_filtered = Inr (c9_enriched, [(''RANK'', - 1)])"
  by (simp add: c9_filtered_def special_rank_def assign_col_def update_col_def columns_def
      isnull_int_def TARGET_COL_def Let_def c9_groupby c9_merge del: groupby_agg.simps)

lemma c9_fit: "clean_and_impute never_float c9_frame = Inr c9_result"
proof -
  let ?G = "\<lparr>nrows = 3, cols = [(''RANK'', NumCol [Some (- 1), Some 7, Some (- 1)]),
                                  (''speed'', NumCol [Some 2, None, Some 8]),
                                  (''RANK_missing'', NumCol [Some 1, Some 0, Some 1]),
                                  (''cat_mean_vcvr'', NumCol [Some 3, Some 3, Some 3]),
                                  (''cat_median_vcvr'', NumCol [Some 3, Some 3, Some 3]),
                                  (''cat_count'', NumCol [Some 2, Some 1, Some 2])]\<rparr>"
  let ?F = "\<lparr>nrows = 3, cols = [(''RANK'', NumCol [Some (- 1), Some 7, Some (- 1)]),
                                  (''speed'', NumCol [Some 2, Some 5, Some 8]),
                                  (''RANK_missing'', NumCol [Some 1, Some 0, Some 1]),
                                  (''cat_mean_vcvr'', NumCol [Some 3, Some 3, Some 3]),
                                  (''cat_median_vcvr'', NumCol [Some 3, Some 3, Some 3]),
                                  (''cat_count'', NumCol [Some 2, Some 1, Some 2])]\<rparr>"
  have d: "cols_to_drop c9_enriched = []"
    by (simp add: c9_enriched_def frame_ops)
  have 3: "drop_columns (cols_to_drop c9_enriched) c9_enriched = c9_enriched"
    unfolding d by (simp add: c9_enriched_def frame_ops)
  have 4: "map_of (cols c9_enriched) TARGET_COL = Some (NumCol [Some 1, Some 3, Some 5])"
    by (simp add: c9_enriched_def frame_ops)
  have 5: "astype_float never_float (NumCol [Some 1, Some 3, Some 5]) = Inr [Some 1, Some 3, Some 5]"
    by simp
  have 6: "select_dtypes_number
           (drop_columns (filter (\<lambda>c. c \<in> set (columns c9_enriched)) ID_COLS @ [TARGET_COL])
              c9_enriched) = ?G"
    by (simp add: c9_enriched_def frame_ops)
  have z: "\<not> zero_like ''speed''" "zero_like ''cat_count''"
    by (simp_all add: zero_like_def upper_def upper_char_def special_upper_def sublist_code
        prefix_code)
  have md: "median_of (present [Some 2, None, Some 8]) = Some 5"
    by (simp add: median_of_def present_def List.map_filter_def)
  have 7: "impute_loop (columns ?G) (?G, [], []) = (?F, [], [(''speed'', Some 5)])"
    by (simp add: frame_ops z md Let_def)
  have 8: "build_sample_weight never_float c9_enriched (nrows ?F)
             = Inr [Some 1, Some 1, Some 1]"
    by (simp add: build_sample_weight_def base_weight_def c9_enriched_def frame_ops
        numeral_3_eq_3)
  have 9: "nan_check ?F = None"
    by (simp add: nan_check_def no_nulls_def)
  show ?thesis
    using clean_and_impute_steps[OF c9_step1 c9_step2 3 4 5 6 7 8] by (simp add: d 9 c9_result_def)
qed

lemma rank_sentinel_and_indicator_example:
  "clean_and_impute never_float c9_frame = Inr c9_result
   \<and> ''RANK'' \<in> set (columns c9_frame)
   \<and> map_of (cols c9_filtered) ''RANK'' = Some (NumCol [None, Some 7, None])
   \<and> map_of (cols (fit_X c9_result)) ''RANK_missing'' = Some (NumCol [Some 1, Some 0, Some 1])
   \<and> map_of (cols (fit_X c9_result)) ''RANK'' = Some (NumCol [Some (- 1), Some 7, Some (- 1)])
   \<and> sentinel_cols (fit_info c9_result) = [(''RANK'', - 1)]
   \<and> ''RANK'' \<notin> set (zero_cols (fit_info c9_result))
   \<and> ''RANK'' \<notin> fst ` set (median_cols (fit_info c9_result))"
proof -
  have rk: "''RANK'' \<in> set (columns c9_frame)" by (simp add: c9_frame_def columns_def)
  have r: "map_of (cols c9_filtered) ''RANK'' = Some (NumCol [None, Some 7, None])"
    by (simp add: c9_filtered_def)
  from rank_sentinel_and_indicator[OF c9_fit rk] c9_fit rk r show ?thesis
    by (auto simp: c9_step1 isnull_int_def)
qed

lemma nan_gt_iff: "nan_gt x t \<longleftrightarrow> (\<exists>r. x = Some r \<and> r > t)"
  by (cases x) auto

lemma mem_cols_to_drop:
  "c \<in> set (cols_to_drop df) \<longleftrightarrow>
     (\<exists>col r. (c, col) \<in> set (cols df) \<and> c \<notin> {TARGET_COL, ''RANK'', ''RANK_missing''}
              \<and> missing_ratio col = Some r \<and> r > 0.40)"
  by (auto simp: cols_to_drop_def nan_gt_iff image_iff)

lemma before_pruning_eq:
  "drop_missing_target df = Inr df1 \<Longrightarrow> special_rank df1 = Inr (df2, sent) \<Longrightarrow>
   before_pruning df = Inr df2"
  by (simp add: before_pruning_def)

text \<open>
  Claim C8, amended. The pruning step protects three names, \<^verbatim>\<open>VCVR\<close>, \<^verbatim>\<open>RANK\<close> and
  \<^verbatim>\<open>RANK_missing\<close>, whether or not the dataset has a \<^verbatim>\<open>RANK\<close> column. Whenever
  \<^verbatim>\<open>clean_and_impute\<close> returns (on a dataset with distinct column names), the plan's
  \<^verbatim>\<open>dropped_cols\<close> are the columns found by the pruning step: a column is dropped if and only
  if its name is none of the three and its fraction of missing values is greater than 0.40.
  A column whose fraction is exactly 0.40 is not dropped. A column that is not dropped stays
  in the pruned frame, and it is in the feature matrix when it is numeric and neither the
  target nor an identifier column. A dropped column is neither in the pruned frame nor in
  the feature matrix.
\<close>

theorem pruning_rule:
  assumes fit: "clean_and_impute pf df = Inr res" and dist: "distinct (columns df)"
  shows "\<exists>df2. before_pruning df = Inr df2
     \<and> dropped_cols (fit_info res) = cols_to_drop df2
     \<and> (\<forall>c. c \<in> set (dropped_cols (fit_info res)) \<longleftrightarrow>
            (\<exists>col r. (c, col) \<in> set (cols df2)
                    \<and> c \<notin> {TARGET_COL, ''RANK'', ''RANK_missing''}
                    \<and> missing_ratio col = Some r \<and> r > 0.40))
     \<and> (\<forall>(c, col) \<in> set (cols df2).
            missing_ratio col = Some 0.40 \<longrightarrow> c \<notin> set (dropped_cols (fit_info res)))
     \<and> (\<forall>(c, col) \<in> set (cols df2).
            c \<notin> set (dropped_cols (fit_info res)) \<longrightarrow>
              (c, col) \<in> set (cols (drop_columns (dropped_cols (fit_info res)) df2))
            \<and> (is_numeric col \<and> c \<noteq> TARGET_COL \<and> c \<notin> set ID_COLS \<longrightarrow>
                 c \<in> set (columns (fit_X res))))
     \<and> (\<forall>c \<in> set (dropped_cols (fit_info res)).
            c \<notin> set (columns (drop_columns (dropped_cols (fit_info res)) df2))
          \<and> c \<notin> set (columns (fit_X res)))"
proof -
  from fit obtain df1 df2 sent df3 t F0 zs ms where
    s1: "drop_missing_target df = Inr df1"
    and s2: "special_rank df1 = Inr (df2, sent)"
    and s3: "df3 = drop_columns (cols_to_drop df2) df2"
    and s6: "F0 = select_dtypes_number
           (drop_columns (filter (\<lambda>c. c \<in> set (columns df3)) ID_COLS @ [TARGET_COL]) df3)"
    and s7: "impute_loop (columns F0) (F0, [], []) = (fit_X res, zs, ms)"
    and s9: "fit_info res = \<lparr>zero_cols = zs, median_cols = ms, dropped_cols = cols_to_drop df2,
                            sentinel_cols = sent\<rparr>"
    by (rule clean_and_impute_InrD)
  have dr: "dropped_cols (fit_info res) = cols_to_drop df2" by (simp add: s9)
  have d1: "distinct (columns df1)" using dist drop_missing_target_columns[OF s1] by simp
  have d2: "distinct (columns df2)" by (rule special_rank_distinct[OF s2 d1])
  have sh: "columns (fit_X res) = columns F0" using impute_loop_shape[OF s7] by simp
  have edge: "c \<notin> set (cols_to_drop df2)"
    if m: "(c, col) \<in> set (cols df2)" and r: "missing_ratio col = Some 0.40" for c col
  proof
    assume "c \<in> set (cols_to_drop df2)"
    then obtain col' r' where m': "(c, col') \<in> set (cols df2)"
      and r': "missing_ratio col' = Some r'" and g: "r' > 0.40"
      unfolding mem_cols_to_drop by blast
    from d2 m' m have "col' = col" unfolding columns_def by (rule eq_key_imp_eq_value)
    with r r' g show False by simp
  qed
  have kept: "(c, col) \<in> set (cols (drop_columns (cols_to_drop df2) df2))
       \<and> (is_numeric col \<and> c \<noteq> TARGET_COL \<and> c \<notin> set ID_COLS \<longrightarrow>
            c \<in> set (columns (fit_X res)))"
    if m: "(c, col) \<in> set (cols df2)" and n: "c \<notin> set (cols_to_drop df2)" for c col
  proof -
    have a: "(c, col) \<in> set (cols df3)" using m n by (simp add: s3 drop_columns_def)
    have b: "c \<in> set (columns (fit_X res))"
      if "is_numeric col" "c \<noteq> TARGET_COL" "c \<notin> set ID_COLS"
    proof -
      have "(c, col) \<in> set (cols F0)"
        using a that by (auto simp: s6 select_dtypes_number_def drop_columns_def)
      then have "c \<in> set (columns F0)" by (force simp: columns_def)
      then show ?thesis by (simp add: sh)
    qed
    from a b show ?thesis unfolding s3 by blast
  qed
  have sub: "set (columns (fit_X res)) \<subseteq> set (columns df3)"
    unfolding sh by (auto simp: s6 select_dtypes_number_def drop_columns_def columns_def)
  have gone: "c \<notin> set (columns (drop_columns (cols_to_drop df2) df2))
       \<and> c \<notin> set (columns (fit_X res))"
    if "c \<in> set (cols_to_drop df2)" for c
  proof -
    have "c \<notin> set (columns df3)" using that by (auto simp: s3 drop_columns_def columns_def)
    then show ?thesis using sub unfolding s3 by blast
  qed
  show ?thesis
  proof (intro exI conjI allI ballI)
    show "before_pruning df = Inr df2" by (rule before_pruning_eq[OF s1 s2])
    show "dropped_cols (fit_info res) = cols_to_drop df2" by (rule dr)
    show "c \<in> set (dropped_cols (fit_info res)) \<longleftrightarrow>
            (\<exists>col r. (c, col) \<in> set (cols df2)
                    \<and> c \<notin> {TARGET_COL, ''RANK'', ''RANK_missing''}
                    \<and> missing_ratio col = Some r \<and> r > 0.40)" for c
      unfolding dr by (rule mem_cols_to_drop)
    show "case x of (c, col) \<Rightarrow>
            missing_ratio col = Some 0.40 \<longrightarrow> c \<notin> set (dropped_cols (fit_info res))"
      if "x \<in> set (cols df2)" for x
      using that edge unfolding dr by (cases x) auto
    show "case x of (c, col) \<Rightarrow>
            c \<notin> set (dropped_cols (fit_info res)) \<longrightarrow>
              (c, col) \<in> set (cols (drop_columns (dropped_cols (fit_info res)) df2))
            \<and> (is_numeric col \<and> c \<noteq> TARGET_COL \<and> c \<notin> set ID_COLS \<longrightarrow>
                 c \<in> set (columns (fit_X res)))"
      if x: "x \<in> set (cols df2)" for x
    proof -
      obtain c col where e: "x = (c, col)" by (cases x)
      from kept[OF x[unfolded e]] show ?thesis unfolding e dr by simp
    qed
    show "c \<notin> set (columns (drop_columns (dropped_cols (fit_info res)) df2))"
      if "c \<in> set (dropped_cols (fit_info res))" for c
      using that gone unfolding dr by blast
    show "c \<notin> set (columns (fit_X res))" if "c \<in> set (dropped_cols (fit_info res))" for c
      using that gone unfolding dr by blast
  qed
qed

text \<open>A dataset of five rows: \<^verbatim>\<open>edge\<close> has two missing values (0.40), \<^verbatim>\<open>sparse\<close> and
  \<^verbatim>\<open>note\<close> have three (0.60).\<close>

lemma c8_fit: "clean_and_impute never_float c8_frame = Inr c8_result"
proof -
  let ?P = "\<lparr>nrows = 5, cols = [(''VCVR'', NumCol [Some 1, Some 2, Some 3, Some 4, Some 5]),
                                  (''edge'', NumCol [None, None, Some 1, Some 2, Some 3])]\<rparr>"
  let ?G = "\<lparr>nrows = 5, cols = [(''edge'', NumCol [None, None, Some 1, Some 2, Some 3])]\<rparr>"
  let ?F = "\<lparr>nrows = 5, cols = [(''edge'', NumCol [Some 2, Some 2, Some 1, Some 2, Some 3])]\<rparr>"
  have 1: "drop_missing_target c8_frame = Inr c8_frame"
    by (simp add: c8_frame_def frame_ops)
  have 2: "special_rank c8_frame = Inr (c8_frame, [])"
    by (simp add: c8_frame_def frame_ops)
  have d: "cols_to_drop c8_frame = [''sparse'', ''note'']"
    by (simp add: c8_frame_def frame_ops)
  have 3: "drop_columns (cols_to_drop c8_frame) c8_frame = ?P"
    unfolding d by (simp add: c8_frame_def frame_ops)
  have 4: "map_of (cols ?P) TARGET_COL = Some (NumCol [Some 1, Some 2, Some 3, Some 4, Some 5])"
    by (simp add: frame_ops)
  have 5: "astype_float never_float (NumCol [Some 1, Some 2, Some 3, Some 4, Some 5])
             = Inr [Some 1, Some 2, Some 3, Some 4, Some 5]"
    by simp
  have 6: "select_dtypes_number
           (drop_columns (filter (\<lambda>c. c \<in> set (columns ?P)) ID_COLS @ [TARGET_COL]) ?P) = ?G"
    by (simp add: frame_ops)
  have z: "\<not> zero_like ''edge''"
    by (simp add: zero_like_def upper_def upper_char_def special_upper_def sublist_code
        prefix_code)
  have md: "median_of (present [None, None, Some 1, Some 2, Some 3]) = Some 2"
    by (simp add: median_of_def present_def List.map_filter_def numeral_3_eq_3)
  have 7: "impute_loop (columns ?G) (?G, [], []) = (?F, [], [(''edge'', Some 2)])"
    by (simp add: frame_ops z md Let_def)
  have 8: "build_sample_weight never_float ?P (nrows ?F)
             = Inr [Some 1, Some 1, Some 1, Some 1, Some 1]"
    by (simp add: build_sample_weight_def base_weight_def frame_ops eval_nat_numeral)
  have 9: "nan_check ?F = None"
    by (simp add: nan_check_def no_nulls_def)
  show ?thesis
    using clean_and_impute_steps[OF 1 2 3 4 5 6 7 8] by (simp add: d 9 c8_result_def)
qed

theorem pruning_rule_witness:
  "clean_and_impute never_float c8_frame = Inr c8_result
   \<and> distinct (columns c8_frame)
   \<and> before_pruning c8_frame = Inr c8_frame
   \<and> missing_ratio (NumCol [None, None, Some 1, Some 2, Some 3]) = Some 0.40
   \<and> missing_ratio (NumCol [None, None, None, Some 1, Some 2]) = Some 0.60
   \<and> dropped_cols (fit_info c8_result) = [''sparse'', ''note'']
   \<and> ''edge'' \<notin> set (dropped_cols (fit_info c8_result))
   \<and> (''edge'', NumCol [None, None, Some 1, Some 2, Some 3])
         \<in> set (cols (drop_columns (dropped_cols (fit_info c8_result)) c8_frame))
   \<and> ''edge'' \<in> set (columns (fit_X c8_result))
   \<and> ''sparse'' \<notin> set (columns (drop_columns (dropped_cols (fit_info c8_result)) c8_frame))
   \<and> ''sparse'' \<notin> set (columns (fit_X c8_result))"
proof -
  let ?e = "NumCol [None, None, Some 1, Some 2, Some 3]"
  have ds: "distinct (columns c8_frame)" by (simp add: c8_frame_def columns_def)
  have r1: "missing_ratio ?e = Some 0.40"
    and r2: "missing_ratio (NumCol [None, None, None, Some 1, Some 2]) = Some 0.60"
    by (simp_all add: missing_ratio_def)
  have bp: "before_pruning c8_frame = Inr c8_frame"
    by (simp add: before_pruning_def c8_frame_def frame_ops)
  from pruning_rule[OF c8_fit ds]
  obtain df2 where b: "before_pruning c8_frame = Inr df2"
    and dr: "dropped_cols (fit_info c8_result) = cols_to_drop df2"
    and edge: "\<forall>(c, col) \<in> set (cols df2).
            missing_ratio col = Some 0.40 \<longrightarrow> c \<notin> set (dropped_cols (fit_info c8_result))"
    and kept: "\<forall>(c, col) \<in> set (cols df2).
            c \<notin> set (dropped_cols (fit_info c8_result)) \<longrightarrow>
              (c, col) \<in> set (cols (drop_columns (dropped_cols (fit_info c8_result)) df2))
            \<and> (is_numeric col \<and> c \<noteq> TARGET_COL \<and> c \<notin> set ID_COLS \<longrightarrow>
                 c \<in> set (columns (fit_X c8_result)))"
    and gone: "\<forall>c \<in> set (dropped_cols (fit_info c8_result)).
            c \<notin> set (columns (drop_columns (dropped_cols (fit_info c8_result)) df2))
          \<and> c \<notin> set (columns (fit_X c8_result))"
    by (elim exE conjE) (rule that; assumption)
  from b bp have e: "df2 = c8_frame" by simp
  have dc: "dropped_cols (fit_info c8_result) = [''sparse'', ''note'']"
    by (simp add: c8_result_def)
  have m: "(''edge'', ?e) \<in> set (cols df2)"
    by (simp add: e c8_frame_def)
  from edge m have "case (''edge'', ?e) of (c, col) \<Rightarrow>
            missing_ratio col = Some 0.40 \<longrightarrow> c \<notin> set (dropped_cols (fit_info c8_result))"
    by (rule bspec)
  with r1 have k: "''edge'' \<notin> set (dropped_cols (fit_info c8_result))" by simp
  from kept m have "case (''edge'', ?e) of (c, col) \<Rightarrow>
            c \<notin> set (dropped_cols (fit_info c8_result)) \<longrightarrow>
              (c, col) \<in> set (cols (drop_columns (dropped_cols (fit_info c8_result)) df2))
            \<and> (is_numeric col \<and> c \<noteq> TARGET_COL \<and> c \<notin> set ID_COLS \<longrightarrow>
                 c \<in> set (columns (fit_X c8_result)))"
    by (rule bspec)
  with k have k1: "(''edge'', ?e)
         \<in> set (cols (drop_columns (dropped_cols (fit_info c8_result)) c8_frame))"
    and k2: "''edge'' \<in> set (columns (fit_X c8_result))"
    unfolding e by (simp_all add: TARGET_COL_def ID_COLS_def)
  have "''sparse'' \<in> set (dropped_cols (fit_info c8_result))" unfolding dc by simp
  with gone
  have "''sparse'' \<notin> set (columns (drop_columns (dropped_cols (fit_info c8_result)) df2))
          \<and> ''sparse'' \<notin> set (columns (fit_X c8_result))"
    by (rule bspec)
  then have g1: "''sparse''
          \<notin> set (columns (drop_columns (dropped_cols (fit_info c8_result)) c8_frame))"
    and g2: "''sparse'' \<notin> set (columns (fit_X c8_result))"
    unfolding e by (rule conjunct1, rule conjunct2)
  show ?thesis using c8_fit ds bp r1 r2 dc k k1 k2 g1 g2 by (intro conjI)
qed

subsection \<open>What the imputation loop leaves\<close>

















end
